theory Spec2Isabelle
  imports Main
begin

section \<open>Data model of \<^verbatim>\<open>server.js\<close>\<close>

text \<open>
  The server keeps all of its state in one SQLite database and every route handler runs
  synchronously, so a handler is a function from the database to a response and the
  database after it. A table is the list of its rows in insertion order; a
  \<^verbatim>\<open>SELECT ... .get()\<close> is the first matching row, an \<^verbatim>\<open>UPDATE ... WHERE\<close> rewrites every
  matching row, a \<^verbatim>\<open>DELETE ... WHERE\<close> drops every matching row. The columns
  \<^verbatim>\<open>created_at\<close>, \<^verbatim>\<open>obtained_at\<close> (timestamps) are left out, as are the tables
  \<^verbatim>\<open>player_data\<close>, \<^verbatim>\<open>broadcast_messages\<close>, \<^verbatim>\<open>game_config\<close> and \<^verbatim>\<open>player_notes\<close>, whose routes
  touch no other table.

  Request fields: a text field is a \<open>string\<close>, where the empty string stands for a missing
  field as well (both are falsy for the \<^verbatim>\<open>!field\<close> checks). The fields \<^verbatim>\<open>amount\<close> and \<^verbatim>\<open>price\<close>
  are values of the type \<open>json\<close> below, which has strings next to integers. The field
  \<^verbatim>\<open>quantity\<close> of the inventory routes is an \<open>int option\<close>, \<open>None\<close> for a field that is not sent:
  these routes are modelled for integer quantities only. Values that \<^verbatim>\<open>uuidv4()\<close> and
  \<^verbatim>\<open>bcrypt.hashSync\<close> return are arguments of the handler that calls them, and
  \<^verbatim>\<open>bcrypt.compareSync\<close> is a parameter of the login handler.

  Numbers are integers without a bound and arithmetic is exact; the server computes with
  doubles, which round above 2 to the power 53.

  The column \<^verbatim>\<open>id\<close> of \<^verbatim>\<open>players\<close> is the field \<open>pid\<close>; the columns of the other tables
  carry a prefix naming their table where two tables share a column name. The field
  \<open>OWNER_PASSWORD\<close> of the database record is the constant of that name, fixed from the
  environment when the server starts.
\<close>

record player =
  pid :: string
  game_id :: string
  username :: string
  password_hash :: string
  token :: "string option"
  credits :: int
  banned :: bool

record cosmetic =
  c_id :: string
  c_game_id :: string
  c_name :: string
  c_type :: string
  c_description :: "string option"
  price :: int
  rarity :: string

record player_cosmetic =
  pc_player_id :: string
  pc_cosmetic_id :: string
  equipped :: bool

record inventory_row =
  inv_player_id :: string
  item_name :: string
  quantity :: int
  metadata :: "string option"

record friend_relationship =
  fr_player_id :: string
  fr_friend_id :: string
  status :: string

record db =
  players :: "player list"
  cosmetics_catalog :: "cosmetic list"
  player_cosmetics :: "player_cosmetic list"
  inventory :: "inventory_row list"
  friend_relationships :: "friend_relationship list"
  OWNER_PASSWORD :: string

text \<open>An error response: the HTTP status and the \<^verbatim>\<open>error\<close> text of the JSON body.\<close>

type_synonym error = "nat \<times> string"

type_synonym 'a reply = "(error + 'a) \<times> db"

section \<open>Helpers\<close>

definition getPlayer :: "db \<Rightarrow> string \<Rightarrow> player option" where
  "getPlayer s tok = find (\<lambda>r. token r = Some tok) (players s)"

definition requireAuth :: "db \<Rightarrow> string \<Rightarrow> error + player" where
  "requireAuth s tok =
     (if tok = [] then Inl (401, ''Missing token'')
      else case getPlayer s tok of
        None \<Rightarrow> Inl (401, ''Invalid token'')
      | Some p \<Rightarrow> if banned p then Inl (403, ''Account banned'') else Inr p)"

definition requireOwner :: "db \<Rightarrow> string \<Rightarrow> error + unit" where
  "requireOwner s key =
     (if key \<noteq> OWNER_PASSWORD s then Inl (403, ''Not authorized'') else Inr ())"

text \<open>\<^verbatim>\<open>UPDATE players SET credits = f(credits) WHERE id = ?\<close>\<close>

definition set_credits :: "(int \<Rightarrow> int) \<Rightarrow> string \<Rightarrow> db \<Rightarrow> db" where
  "set_credits f i s =
     s\<lparr>players := map (\<lambda>r. if pid r = i then r\<lparr>credits := f (credits r)\<rparr> else r) (players s)\<rparr>"

text \<open>\<^verbatim>\<open>result.changes\<close> of an update or delete \<^verbatim>\<open>WHERE id = ?\<close>: the number of matching rows.\<close>

definition changes :: "string \<Rightarrow> db \<Rightarrow> nat" where
  "changes i s = length (filter (\<lambda>r. pid r = i) (players s))"

text \<open>
  \<^verbatim>\<open>SELECT credits FROM players WHERE id = ?\<close> followed by \<^verbatim>\<open>.credits\<close> on the row: reading
  a field of \<^verbatim>\<open>undefined\<close> throws, which Express answers with status 500.
\<close>

definition select_credits :: "db \<Rightarrow> string \<Rightarrow> error + int" where
  "select_credits s i =
     (case find (\<lambda>r. pid r = i) (players s) of
        None \<Rightarrow> Inl (500, ''TypeError'')
      | Some r \<Rightarrow> Inr (credits r))"

section \<open>Auth routes\<close>

record register_ok =
  reg_player_id :: string
  reg_token :: string
  reg_username :: string
  reg_credits :: int

text \<open>
  \<^verbatim>\<open>INSERT INTO players\<close> throws when the primary key \<^verbatim>\<open>id\<close> or the pair
  \<^verbatim>\<open>UNIQUE(game_id, username)\<close> is already in the table; the handler catches it and answers 409.
  The columns \<^verbatim>\<open>credits\<close> and \<^verbatim>\<open>banned\<close> take their default 0.
\<close>

definition insert_player :: "db \<Rightarrow> player \<Rightarrow> db option" where
  "insert_player s r =
     (if (\<exists>q \<in> set (players s). pid q = pid r \<or> (game_id q = game_id r \<and> username q = username r))
      then None
      else Some (s\<lparr>players := players s @ [r]\<rparr>))"

definition register :: "db \<Rightarrow> string \<Rightarrow> string \<Rightarrow> string \<Rightarrow> string \<Rightarrow> string \<Rightarrow> string
    \<Rightarrow> register_ok reply" where
  "register s g u pw hash i tok =
     (if g = [] \<or> u = [] \<or> pw = [] then (Inl (400, ''game_id, username, and password required''), s)
      else case insert_player s \<lparr>pid = i, game_id = g, username = u, password_hash = hash,
                                 token = Some tok, credits = 0, banned = False\<rparr> of
        Some s' \<Rightarrow> (Inr \<lparr>reg_player_id = i, reg_token = tok, reg_username = u, reg_credits = 0\<rparr>, s')
      | None \<Rightarrow> (Inl (409, ''Username already taken in this game''), s))"

record login_ok =
  login_player_id :: string
  login_token :: string
  login_username :: string
  login_credits :: int

definition login :: "(string \<Rightarrow> string \<Rightarrow> bool) \<Rightarrow> db \<Rightarrow> string \<Rightarrow> string \<Rightarrow> string \<Rightarrow> string
    \<Rightarrow> login_ok reply" where
  "login compareSync s g u pw tok =
     (if g = [] \<or> u = [] \<or> pw = [] then (Inl (400, ''game_id, username, and password required''), s)
      else case find (\<lambda>r. game_id r = g \<and> username r = u) (players s) of
        None \<Rightarrow> (Inl (401, ''Invalid credentials''), s)
      | Some p \<Rightarrow>
          if \<not> compareSync pw (password_hash p) then (Inl (401, ''Invalid credentials''), s)
          else if banned p then (Inl (403, ''Account banned''), s)
          else (Inr \<lparr>login_player_id = pid p, login_token = tok, login_username = username p,
                     login_credits = credits p\<rparr>,
                s\<lparr>players := map (\<lambda>r. if pid r = pid p then r\<lparr>token := Some tok\<rparr> else r) (players s)\<rparr>))"

section \<open>JSON values in requests\<close>

text \<open>
  \<^verbatim>\<open>express.json()\<close> hands a handler the fields of the body as they were sent, and no handler
  looks at their type. A value of \<open>json\<close> is a field that is not sent (\<^verbatim>\<open>undefined\<close>), \<^verbatim>\<open>null\<close>, an
  integer or a string; booleans, arrays, objects and fractions are not modelled.
\<close>

datatype json = Absent | Null | Num int | Str string

text \<open>
  What a value of JavaScript converts to where a number is wanted: \<open>Other\<close> stands for a number
  that is not an integer, or a string the model does not read (see \<open>StringToNumber\<close>).
\<close>

datatype number = NaN | Integer int | Other

definition is_digit :: "char \<Rightarrow> bool" where
  "is_digit c = (c \<in> set ''0123456789'')"

definition digit_value :: "char \<Rightarrow> int" where
  "digit_value c = int (length (takeWhile (\<lambda>d. d \<noteq> c) ''0123456789''))"

definition digits_value :: "string \<Rightarrow> int" where
  "digits_value ds = foldl (\<lambda>n c. 10 * n + digit_value c) 0 ds"

text \<open>An optional sign in front: the sign as a factor, and the rest of the string.\<close>

definition strip_sign :: "string \<Rightarrow> int \<times> string" where
  "strip_sign t =
     (case t of
        [] \<Rightarrow> (1, [])
      | c # r \<Rightarrow> if c = CHR ''-'' then (- 1, r) else if c = CHR ''+'' then (1, r) else (1, t))"

definition integer_literal :: "string \<Rightarrow> bool" where
  "integer_literal t = (snd (strip_sign t) \<noteq> [] \<and> list_all is_digit (snd (strip_sign t)))"

text \<open>A printable ASCII character other than the space.\<close>

definition plain_char :: "char \<Rightarrow> bool" where
  "plain_char c = (32 < (of_char c :: nat) \<and> (of_char c :: nat) < 127)"

text \<open>The characters a decimal literal of JavaScript is made of.\<close>

definition decimal_char :: "char \<Rightarrow> bool" where
  "decimal_char c = (is_digit c \<or> c \<in> set ''.eE+-'')"

text \<open>
  The number JavaScript converts a string to. The empty string is 0 and a string of digits
  with an optional sign is that integer. A string of printable characters without a space is
  \<^verbatim>\<open>NaN\<close> when it has a character no decimal literal has, does not start like a hex, octal or
  binary literal, and is not \<^verbatim>\<open>Infinity\<close> with or without a sign: no numeric literal has that
  form. Every other string (with white space to trim, a fraction, an exponent, another base,
  \<^verbatim>\<open>Infinity\<close>, bytes outside ASCII) is left unread as \<open>Other\<close>.
\<close>

definition StringToNumber :: "string \<Rightarrow> number" where
  "StringToNumber t =
     (if t = [] then Integer 0
      else if integer_literal t then Integer (fst (strip_sign t) * digits_value (snd (strip_sign t)))
      else if list_all plain_char t \<and> \<not> list_all decimal_char t
              \<and> take 2 t \<notin> set [''0x'', ''0X'', ''0o'', ''0O'', ''0b'', ''0B'']
              \<and> t \<notin> set [''Infinity'', ''+Infinity'', ''-Infinity'']
      then NaN
      else Other)"

definition ToNumber :: "json \<Rightarrow> number" where
  "ToNumber j =
     (case j of
        Absent \<Rightarrow> NaN
      | Null \<Rightarrow> Integer 0
      | Num n \<Rightarrow> Integer n
      | Str t \<Rightarrow> StringToNumber t)"

text \<open>\<^verbatim>\<open>!amount\<close>\<close>

definition falsy :: "json \<Rightarrow> bool" where
  "falsy j = (j = Absent \<or> j = Null \<or> j = Num 0 \<or> j = Str [])"

text \<open>
  \<^verbatim>\<open>amount <= n\<close> and \<^verbatim>\<open>n < amount\<close> for a number \<open>n\<close>: the comparison of the two numbers, false when
  the value converts to \<^verbatim>\<open>NaN\<close>; \<open>None\<close> when its number is \<open>Other\<close>.
\<close>

definition js_le :: "json \<Rightarrow> int \<Rightarrow> bool option" where
  "js_le j n =
     (case ToNumber j of
        NaN \<Rightarrow> Some False
      | Integer m \<Rightarrow> Some (m \<le> n)
      | Other \<Rightarrow> None)"

definition js_less :: "int \<Rightarrow> json \<Rightarrow> bool option" where
  "js_less n j =
     (case ToNumber j of
        NaN \<Rightarrow> Some False
      | Integer m \<Rightarrow> Some (n < m)
      | Other \<Rightarrow> None)"

text \<open>
  The number SQLite takes a text for as an operand of \<^verbatim>\<open>+\<close> or \<^verbatim>\<open>-\<close>: the value of its longest
  numeric prefix, 0 when it has none; what follows the prefix is ignored. The prefix read here
  is an optional sign and digits; \<open>None\<close> when the text starts with a character that is not
  plain or a point or an exponent letter follows the digits (the prefix may then be a
  fraction).
\<close>

definition text_numeric :: "string \<Rightarrow> int option" where
  "text_numeric t =
     (case t of
        [] \<Rightarrow> Some 0
      | c0 # _ \<Rightarrow>
          if \<not> plain_char c0 then None
          else (case dropWhile is_digit (snd (strip_sign t)) of
                  [] \<Rightarrow> Some (fst (strip_sign t)
                               * digits_value (takeWhile is_digit (snd (strip_sign t))))
                | c # _ \<Rightarrow>
                    if c \<in> set ''.eE'' then None
                    else Some (fst (strip_sign t)
                               * digits_value (takeWhile is_digit (snd (strip_sign t))))))"

text \<open>
  A request value bound to the \<^verbatim>\<open>?\<close> of \<^verbatim>\<open>credits + ?\<close> or \<^verbatim>\<open>credits - ?\<close>: the integer that is
  added or subtracted. A number is bound as it is and a string as text. With \<^verbatim>\<open>null\<close> the
  result is \<^verbatim>\<open>NULL\<close>, which is no integer; no handler binds a field that was not sent.
\<close>

definition sql_operand :: "json \<Rightarrow> int option" where
  "sql_operand j =
     (case j of
        Num n \<Rightarrow> Some n
      | Str t \<Rightarrow> text_numeric t
      | Null \<Rightarrow> None
      | Absent \<Rightarrow> None)"

text \<open>
  A request value bound to the \<^verbatim>\<open>?\<close> of \<^verbatim>\<open>SET credits = ?\<close> or to the \<^verbatim>\<open>price\<close> of an insert: the
  integer that is stored. \<^verbatim>\<open>null\<close> and strings put \<^verbatim>\<open>NULL\<close> or a text into the column (or a
  number the column's affinity makes of the text), which the integer columns of \<open>db\<close> do not
  hold.
\<close>

definition sql_stored :: "json \<Rightarrow> int option" where
  "sql_stored j =
     (case j of
        Num n \<Rightarrow> Some n
      | Str t \<Rightarrow> None
      | Null \<Rightarrow> None
      | Absent \<Rightarrow> None)"

section \<open>Credits routes\<close>

text \<open>
  A handler that reads \<^verbatim>\<open>amount\<close> returns \<open>None\<close> when a step of it is outside the integers
  (see above), and its reply and the database after it otherwise.
\<close>

definition credits_spend :: "db \<Rightarrow> string \<Rightarrow> json \<Rightarrow> int reply option" where
  "credits_spend s tok amount =
     (case requireAuth s tok of
        Inl e \<Rightarrow> Some (Inl e, s)
      | Inr p \<Rightarrow>
          if falsy amount then Some (Inl (400, ''Invalid amount''), s)
          else (case js_le amount 0 of
                  None \<Rightarrow> None
                | Some nonpos \<Rightarrow>
                    if nonpos then Some (Inl (400, ''Invalid amount''), s)
                    else (case js_less (credits p) amount of
                            None \<Rightarrow> None
                          | Some short \<Rightarrow>
                              if short then Some (Inl (400, ''Not enough credits''), s)
                              else (case sql_operand amount of
                                      None \<Rightarrow> None
                                    | Some n \<Rightarrow>
                                        let s' = set_credits (\<lambda>c. c - n) (pid p) s
                                        in Some (select_credits s' (pid p), s')))))"

definition credits_add :: "db \<Rightarrow> string \<Rightarrow> json \<Rightarrow> int reply option" where
  "credits_add s tok amount =
     (case requireAuth s tok of
        Inl e \<Rightarrow> Some (Inl e, s)
      | Inr p \<Rightarrow>
          if falsy amount then Some (Inl (400, ''Invalid amount''), s)
          else (case js_le amount 0 of
                  None \<Rightarrow> None
                | Some nonpos \<Rightarrow>
                    if nonpos then Some (Inl (400, ''Invalid amount''), s)
                    else (case sql_operand amount of
                            None \<Rightarrow> None
                          | Some n \<Rightarrow>
                              let s' = set_credits (\<lambda>c. c + n) (pid p) s
                              in Some (select_credits s' (pid p), s'))))"

section \<open>Inventory routes\<close>

text \<open>
  \<^verbatim>\<open>INSERT INTO inventory ... ON CONFLICT(player_id, item_name) DO UPDATE SET
  quantity = quantity + excluded.quantity\<close>
\<close>

definition upsert_inventory :: "db \<Rightarrow> string \<Rightarrow> string \<Rightarrow> int \<Rightarrow> string option \<Rightarrow> db" where
  "upsert_inventory s i n q md =
     (if \<exists>r \<in> set (inventory s). inv_player_id r = i \<and> item_name r = n
      then s\<lparr>inventory := map (\<lambda>r. if inv_player_id r = i \<and> item_name r = n
                                     then r\<lparr>quantity := quantity r + q\<rparr> else r) (inventory s)\<rparr>
      else s\<lparr>inventory := inventory s @
               [\<lparr>inv_player_id = i, item_name = n, quantity = q, metadata = md\<rparr>]\<rparr>)"

text \<open>
  The argument \<open>md\<close> is \<^verbatim>\<open>metadata ? JSON.stringify(metadata) : null\<close>: \<open>None\<close> for a missing
  or falsy \<^verbatim>\<open>metadata\<close>; \<open>qty\<close> defaults to 1 when the field is not sent.
\<close>

definition inventory_add :: "db \<Rightarrow> string \<Rightarrow> string \<Rightarrow> int option \<Rightarrow> string option \<Rightarrow> unit reply" where
  "inventory_add s tok n qty md =
     (case requireAuth s tok of
        Inl e \<Rightarrow> (Inl e, s)
      | Inr p \<Rightarrow>
          let q = (case qty of None \<Rightarrow> 1 | Some q \<Rightarrow> q)
          in if n = [] then (Inl (400, ''item_name required''), s)
             else (Inr (), upsert_inventory s (pid p) n q md))"

definition inventory_remove :: "db \<Rightarrow> string \<Rightarrow> string \<Rightarrow> int option \<Rightarrow> unit reply" where
  "inventory_remove s tok n qty =
     (case requireAuth s tok of
        Inl e \<Rightarrow> (Inl e, s)
      | Inr p \<Rightarrow>
          let q = (case qty of None \<Rightarrow> 1 | Some q \<Rightarrow> q)
          in if n = [] then (Inl (400, ''item_name required''), s)
             else (case find (\<lambda>r. inv_player_id r = pid p \<and> item_name r = n) (inventory s) of
               None \<Rightarrow> (Inl (404, ''Item not found''), s)
             | Some item \<Rightarrow>
                 if quantity item \<le> q
                 then (Inr (), s\<lparr>inventory :=
                         filter (\<lambda>r. \<not> (inv_player_id r = pid p \<and> item_name r = n)) (inventory s)\<rparr>)
                 else (Inr (), s\<lparr>inventory :=
                         map (\<lambda>r. if inv_player_id r = pid p \<and> item_name r = n
                                  then r\<lparr>quantity := quantity r - q\<rparr> else r) (inventory s)\<rparr>)))"

section \<open>Cosmetics routes\<close>

definition owns :: "db \<Rightarrow> string \<Rightarrow> string \<Rightarrow> bool" where
  "owns s i c = (\<exists>r \<in> set (player_cosmetics s). pc_player_id r = i \<and> pc_cosmetic_id r = c)"

text \<open>
  \<^verbatim>\<open>INSERT INTO player_cosmetics (player_id, cosmetic_id)\<close> throws on a row with the same
  primary key; \<^verbatim>\<open>INSERT OR IGNORE\<close> leaves the table as it is then.
\<close>

definition insert_player_cosmetic :: "db \<Rightarrow> string \<Rightarrow> string \<Rightarrow> db option" where
  "insert_player_cosmetic s i c =
     (if owns s i c then None
      else Some (s\<lparr>player_cosmetics := player_cosmetics s @
                    [\<lparr>pc_player_id = i, pc_cosmetic_id = c, equipped = False\<rparr>]\<rparr>))"

definition cosmetics_buy :: "db \<Rightarrow> string \<Rightarrow> string \<Rightarrow> int reply" where
  "cosmetics_buy s tok cosmetic_id =
     (case requireAuth s tok of
        Inl e \<Rightarrow> (Inl e, s)
      | Inr p \<Rightarrow>
          if cosmetic_id = [] then (Inl (400, ''cosmetic_id required''), s)
          else (case find (\<lambda>c. c_id c = cosmetic_id) (cosmetics_catalog s) of
            None \<Rightarrow> (Inl (404, ''Cosmetic not found''), s)
          | Some cosmetic \<Rightarrow>
              if owns s (pid p) cosmetic_id then (Inl (409, ''Already owned''), s)
              else if credits p < price cosmetic then (Inl (400, ''Not enough credits''), s)
              else let s1 = set_credits (\<lambda>c. c - price cosmetic) (pid p) s
                   in (case insert_player_cosmetic s1 (pid p) cosmetic_id of
                         None \<Rightarrow> (Inl (500, ''SqliteError''), s1)
                       | Some s2 \<Rightarrow> (select_credits s2 (pid p), s2))))"

definition cosmetics_equip :: "db \<Rightarrow> string \<Rightarrow> string \<Rightarrow> bool \<Rightarrow> unit reply" where
  "cosmetics_equip s tok cosmetic_id eq =
     (case requireAuth s tok of
        Inl e \<Rightarrow> (Inl e, s)
      | Inr p \<Rightarrow>
          if cosmetic_id = [] then (Inl (400, ''cosmetic_id required''), s)
          else if \<not> owns s (pid p) cosmetic_id then (Inl (403, ''Cosmetic not owned''), s)
          else (Inr (), s\<lparr>player_cosmetics :=
                  map (\<lambda>r. if pc_player_id r = pid p \<and> pc_cosmetic_id r = cosmetic_id
                           then r\<lparr>equipped := eq\<rparr> else r) (player_cosmetics s)\<rparr>))"

section \<open>Owner routes\<close>

definition owner_credits_give :: "db \<Rightarrow> string \<Rightarrow> string \<Rightarrow> json \<Rightarrow> int reply option" where
  "owner_credits_give s key player_id amount =
     (case requireOwner s key of
        Inl e \<Rightarrow> Some (Inl e, s)
      | Inr _ \<Rightarrow>
          if player_id = [] \<or> falsy amount
          then Some (Inl (400, ''player_id and amount required''), s)
          else (case sql_operand amount of
                  None \<Rightarrow> None
                | Some n \<Rightarrow>
                    let s' = set_credits (\<lambda>c. c + n) player_id s
                    in if changes player_id s = 0 then Some (Inl (404, ''Player not found''), s')
                       else Some (select_credits s' player_id, s')))"

definition owner_credits_set :: "db \<Rightarrow> string \<Rightarrow> string \<Rightarrow> json \<Rightarrow> int reply option" where
  "owner_credits_set s key player_id amount =
     (case requireOwner s key of
        Inl e \<Rightarrow> Some (Inl e, s)
      | Inr _ \<Rightarrow>
          if player_id = [] \<or> amount = Absent
          then Some (Inl (400, ''player_id and amount required''), s)
          else (case sql_stored amount of
                  None \<Rightarrow>
                    if changes player_id s = 0 then Some (Inl (404, ''Player not found''), s)
                    else None
                | Some a \<Rightarrow>
                    let s' = set_credits (\<lambda>c. a) player_id s
                    in if changes player_id s = 0 then Some (Inl (404, ''Player not found''), s')
                       else Some (Inr a, s')))"

definition set_banned :: "bool \<Rightarrow> string \<Rightarrow> db \<Rightarrow> db" where
  "set_banned b i s =
     s\<lparr>players := map (\<lambda>r. if pid r = i then r\<lparr>banned := b\<rparr> else r) (players s)\<rparr>"

text \<open>The field \<^verbatim>\<open>banned\<close> of the request defaults to 1; \<open>b\<close> is its truthiness when sent.\<close>

definition owner_ban :: "db \<Rightarrow> string \<Rightarrow> string \<Rightarrow> bool option \<Rightarrow> bool reply" where
  "owner_ban s key player_id b =
     (case requireOwner s key of
        Inl e \<Rightarrow> (Inl e, s)
      | Inr _ \<Rightarrow>
          let bn = (case b of None \<Rightarrow> True | Some x \<Rightarrow> x)
          in if player_id = [] then (Inl (400, ''player_id required''), s)
             else (Inr bn, set_banned bn player_id s))"

text \<open>The four \<^verbatim>\<open>DELETE\<close> statements of a player's removal (the one on \<^verbatim>\<open>player_data\<close> left out).\<close>

definition delete_player :: "string \<Rightarrow> db \<Rightarrow> db" where
  "delete_player i s =
     s\<lparr>player_cosmetics := filter (\<lambda>r. pc_player_id r \<noteq> i) (player_cosmetics s),
       inventory := filter (\<lambda>r. inv_player_id r \<noteq> i) (inventory s),
       players := filter (\<lambda>r. pid r \<noteq> i) (players s)\<rparr>"

definition owner_player_delete :: "db \<Rightarrow> string \<Rightarrow> string \<Rightarrow> unit reply" where
  "owner_player_delete s key i =
     (case requireOwner s key of
        Inl e \<Rightarrow> (Inl e, s)
      | Inr _ \<Rightarrow> (Inr (), delete_player i s))"

text \<open>
  \<^verbatim>\<open>price\<close> defaults to 0 when it is not sent, and \<^verbatim>\<open>rarity\<close> to \<^verbatim>\<open>'common'\<close>; a price that is
  sent is stored unchecked. The insert throws on an \<^verbatim>\<open>id\<close> that is already in the catalog, and
  nothing catches it.
\<close>

definition owner_cosmetics_create :: "db \<Rightarrow> string \<Rightarrow> string \<Rightarrow> string \<Rightarrow> string \<Rightarrow> string option
    \<Rightarrow> json \<Rightarrow> string option \<Rightarrow> string \<Rightarrow> string reply option" where
  "owner_cosmetics_create s key g nm ty descr pr rar i =
     (case requireOwner s key of
        Inl e \<Rightarrow> Some (Inl e, s)
      | Inr _ \<Rightarrow>
          if g = [] \<or> nm = [] \<or> ty = []
          then Some (Inl (400, ''game_id, name, and type required''), s)
          else if \<exists>c \<in> set (cosmetics_catalog s). c_id c = i
          then Some (Inl (500, ''SqliteError''), s)
          else (case sql_stored (if pr = Absent then Num 0 else pr) of
                  None \<Rightarrow> None
                | Some a \<Rightarrow>
                    Some (Inr i, s\<lparr>cosmetics_catalog := cosmetics_catalog s @
                      [\<lparr>c_id = i, c_game_id = g, c_name = nm, c_type = ty, c_description = descr,
                        price = a,
                        rarity = (case rar of None \<Rightarrow> ''common'' | Some x \<Rightarrow> x)\<rparr>]\<rparr>)))"

definition owner_cosmetics_delete :: "db \<Rightarrow> string \<Rightarrow> string \<Rightarrow> unit reply" where
  "owner_cosmetics_delete s key i =
     (case requireOwner s key of
        Inl e \<Rightarrow> (Inl e, s)
      | Inr _ \<Rightarrow>
          (Inr (), s\<lparr>player_cosmetics := filter (\<lambda>r. pc_cosmetic_id r \<noteq> i) (player_cosmetics s),
                     cosmetics_catalog := filter (\<lambda>c. c_id c \<noteq> i) (cosmetics_catalog s)\<rparr>))"

definition owner_cosmetics_grant :: "db \<Rightarrow> string \<Rightarrow> string \<Rightarrow> string \<Rightarrow> unit reply" where
  "owner_cosmetics_grant s key player_id cosmetic_id =
     (case requireOwner s key of
        Inl e \<Rightarrow> (Inl e, s)
      | Inr _ \<Rightarrow>
          if player_id = [] \<or> cosmetic_id = []
          then (Inl (400, ''player_id and cosmetic_id required''), s)
          else (case insert_player_cosmetic s player_id cosmetic_id of
            None \<Rightarrow> (Inr (), s)
          | Some s' \<Rightarrow> (Inr (), s')))"

definition owner_inventory_give :: "db \<Rightarrow> string \<Rightarrow> string \<Rightarrow> string \<Rightarrow> int option \<Rightarrow> unit reply" where
  "owner_inventory_give s key player_id n qty =
     (case requireOwner s key of
        Inl e \<Rightarrow> (Inl e, s)
      | Inr _ \<Rightarrow>
          let q = (case qty of None \<Rightarrow> 1 | Some q \<Rightarrow> q)
          in if player_id = [] \<or> n = [] then (Inl (400, ''player_id and item_name required''), s)
             else (Inr (), upsert_inventory s player_id n q None))"

definition owner_reset_password :: "db \<Rightarrow> string \<Rightarrow> string \<Rightarrow> string \<Rightarrow> string \<Rightarrow> string \<Rightarrow> unit reply" where
  "owner_reset_password s key player_id new_password hash tok =
     (case requireOwner s key of
        Inl e \<Rightarrow> (Inl e, s)
      | Inr _ \<Rightarrow>
          if player_id = [] \<or> new_password = []
          then (Inl (400, ''player_id and new_password required''), s)
          else (case find (\<lambda>r. pid r = player_id) (players s) of
            None \<Rightarrow> (Inl (404, ''Player not found''), s)
          | Some _ \<Rightarrow>
              (Inr (), s\<lparr>players := map (\<lambda>r. if pid r = player_id
                                             then r\<lparr>password_hash := hash, token := Some tok\<rparr>
                                             else r) (players s)\<rparr>)))"

section \<open>Bulk owner operations\<close>

text \<open>
  Each bulk route runs one statement per id inside \<^verbatim>\<open>db.transaction\<close>; none of the statements
  can throw, so the transaction always commits. The reply is the length of the id array.
  The ids of the array are strings.
\<close>

definition owner_bulk_ban :: "db \<Rightarrow> string \<Rightarrow> string list \<Rightarrow> bool option \<Rightarrow> nat reply" where
  "owner_bulk_ban s key player_ids b =
     (case requireOwner s key of
        Inl e \<Rightarrow> (Inl e, s)
      | Inr _ \<Rightarrow>
          let bn = (case b of None \<Rightarrow> True | Some x \<Rightarrow> x)
          in if player_ids = [] then (Inl (400, ''player_ids array required''), s)
             else (Inr (length player_ids), fold (set_banned bn) player_ids s))"

definition owner_bulk_credits :: "db \<Rightarrow> string \<Rightarrow> string list \<Rightarrow> json \<Rightarrow> nat reply option" where
  "owner_bulk_credits s key player_ids amount =
     (case requireOwner s key of
        Inl e \<Rightarrow> Some (Inl e, s)
      | Inr _ \<Rightarrow>
          if player_ids = [] \<or> falsy amount
          then Some (Inl (400, ''player_ids array and amount required''), s)
          else (case sql_operand amount of
                  None \<Rightarrow> None
                | Some n \<Rightarrow>
                    Some (Inr (length player_ids),
                          fold (set_credits (\<lambda>c. c + n)) player_ids s)))"

definition owner_bulk_delete :: "db \<Rightarrow> string \<Rightarrow> string list \<Rightarrow> nat reply" where
  "owner_bulk_delete s key player_ids =
     (case requireOwner s key of
        Inl e \<Rightarrow> (Inl e, s)
      | Inr _ \<Rightarrow>
          if player_ids = [] then (Inl (400, ''player_ids array required''), s)
          else (Inr (length player_ids), fold delete_player player_ids s))"

section \<open>Friends\<close>

text \<open>
  \<^verbatim>\<open>INSERT OR IGNORE INTO friend_relationships (player_id, friend_id, status)\<close>: a row with the
  same primary key \<^verbatim>\<open>(player_id, friend_id)\<close> makes the statement do nothing.
\<close>

definition insert_or_ignore_friend :: "db \<Rightarrow> string \<Rightarrow> string \<Rightarrow> string \<Rightarrow> db" where
  "insert_or_ignore_friend s i f st =
     (if \<exists>r \<in> set (friend_relationships s). fr_player_id r = i \<and> fr_friend_id r = f
      then s
      else s\<lparr>friend_relationships := friend_relationships s @
               [\<lparr>fr_player_id = i, fr_friend_id = f, status = st\<rparr>]\<rparr>)"

definition friends_request :: "db \<Rightarrow> string \<Rightarrow> string \<Rightarrow> unit reply" where
  "friends_request s tok friend_username =
     (case requireAuth s tok of
        Inl e \<Rightarrow> (Inl e, s)
      | Inr p \<Rightarrow>
          if friend_username = [] then (Inl (400, ''friend_username required''), s)
          else (case find (\<lambda>r. game_id r = game_id p \<and> username r = friend_username) (players s) of
            None \<Rightarrow> (Inl (404, ''Player not found in this game''), s)
          | Some friend \<Rightarrow>
              if pid friend = pid p then (Inl (400, ''Cannot add yourself''), s)
              else (Inr (), insert_or_ignore_friend s (pid p) (pid friend) ''pending'')))"

definition friends_accept :: "db \<Rightarrow> string \<Rightarrow> string \<Rightarrow> unit reply" where
  "friends_accept s tok friend_id =
     (case requireAuth s tok of
        Inl e \<Rightarrow> (Inl e, s)
      | Inr p \<Rightarrow>
          if friend_id = [] then (Inl (400, ''friend_id required''), s)
          else let s1 = s\<lparr>friend_relationships :=
                            map (\<lambda>r. if fr_player_id r = friend_id \<and> fr_friend_id r = pid p
                                     then r\<lparr>status := ''accepted''\<rparr> else r) (friend_relationships s)\<rparr>
               in (Inr (), insert_or_ignore_friend s1 (pid p) friend_id ''accepted''))"

text \<open>
  \<^verbatim>\<open>GET /friends\<close>: the join of the caller's accepted edges with \<^verbatim>\<open>players\<close> on
  \<^verbatim>\<open>p.id = fr.friend_id\<close>, one result row \<^verbatim>\<open>(id, username, credits)\<close> per joined pair. The query
  has no \<^verbatim>\<open>ORDER BY\<close>; the rows are listed here in the order of the edges, and the properties
  below speak of membership only.
\<close>

definition friends_rows :: "db \<Rightarrow> string \<Rightarrow> (string \<times> string \<times> int) list" where
  "friends_rows s i =
     concat (map (\<lambda>fr. map (\<lambda>p. (pid p, username p, credits p))
                            (filter (\<lambda>p. pid p = fr_friend_id fr) (players s)))
                 (filter (\<lambda>fr. fr_player_id fr = i \<and> status fr = ''accepted'')
                         (friend_relationships s)))"

definition friends :: "db \<Rightarrow> string \<Rightarrow> (error + (string \<times> string \<times> int) list)" where
  "friends s tok =
     (case requireAuth s tok of
        Inl e \<Rightarrow> Inl e
      | Inr p \<Rightarrow> Inr (friends_rows s (pid p)))"

section \<open>Sequences of requests\<close>

text \<open>
  One constructor per route that writes to a modelled table, with the request's fields and
  the values the handler draws from \<^verbatim>\<open>uuidv4()\<close> and \<^verbatim>\<open>bcrypt.hashSync\<close>.
\<close>

datatype call =
    Register string string string string string string
  | Login string string string string
  | Spend string json
  | Add string json
  | InventoryAdd string string "int option" "string option"
  | InventoryRemove string string "int option"
  | BuyCosmetic string string
  | EquipCosmetic string string bool
  | OwnerCreditsGive string string json
  | OwnerCreditsSet string string json
  | OwnerBan string string "bool option"
  | OwnerPlayerDelete string string
  | OwnerCosmeticsCreate string string string string "string option" json "string option" string
  | OwnerCosmeticsDelete string string
  | OwnerCosmeticsGrant string string string
  | OwnerInventoryGive string string string "int option"
  | OwnerResetPassword string string string string string
  | OwnerBulkBan string "string list" "bool option"
  | OwnerBulkCredits string "string list" json
  | OwnerBulkDelete string "string list"
  | FriendsRequest string string
  | FriendsAccept string string

text \<open>
  The database after one request, whatever the response; \<open>None\<close> when the handler leaves the
  integers.
\<close>

fun step :: "(string \<Rightarrow> string \<Rightarrow> bool) \<Rightarrow> db \<Rightarrow> call \<Rightarrow> db option" where
  "step cmp s (Register g u pw hash i tok) = Some (snd (register s g u pw hash i tok))"
| "step cmp s (Login g u pw tok) = Some (snd (login cmp s g u pw tok))"
| "step cmp s (Spend tok amount) = map_option snd (credits_spend s tok amount)"
| "step cmp s (Add tok amount) = map_option snd (credits_add s tok amount)"
| "step cmp s (InventoryAdd tok n qty md) = Some (snd (inventory_add s tok n qty md))"
| "step cmp s (InventoryRemove tok n qty) = Some (snd (inventory_remove s tok n qty))"
| "step cmp s (BuyCosmetic tok c) = Some (snd (cosmetics_buy s tok c))"
| "step cmp s (EquipCosmetic tok c eq) = Some (snd (cosmetics_equip s tok c eq))"
| "step cmp s (OwnerCreditsGive key i amount) = map_option snd (owner_credits_give s key i amount)"
| "step cmp s (OwnerCreditsSet key i amount) = map_option snd (owner_credits_set s key i amount)"
| "step cmp s (OwnerBan key i b) = Some (snd (owner_ban s key i b))"
| "step cmp s (OwnerPlayerDelete key i) = Some (snd (owner_player_delete s key i))"
| "step cmp s (OwnerCosmeticsCreate key g nm ty descr pr rar i) =
     map_option snd (owner_cosmetics_create s key g nm ty descr pr rar i)"
| "step cmp s (OwnerCosmeticsDelete key i) = Some (snd (owner_cosmetics_delete s key i))"
| "step cmp s (OwnerCosmeticsGrant key i c) = Some (snd (owner_cosmetics_grant s key i c))"
| "step cmp s (OwnerInventoryGive key i n qty) = Some (snd (owner_inventory_give s key i n qty))"
| "step cmp s (OwnerResetPassword key i pw hash tok) = Some (snd (owner_reset_password s key i pw hash tok))"
| "step cmp s (OwnerBulkBan key ids b) = Some (snd (owner_bulk_ban s key ids b))"
| "step cmp s (OwnerBulkCredits key ids amount) = map_option snd (owner_bulk_credits s key ids amount)"
| "step cmp s (OwnerBulkDelete key ids) = Some (snd (owner_bulk_delete s key ids))"
| "step cmp s (FriendsRequest tok u) = Some (snd (friends_request s tok u))"
| "step cmp s (FriendsAccept tok i) = Some (snd (friends_accept s tok i))"

fun run :: "(string \<Rightarrow> string \<Rightarrow> bool) \<Rightarrow> db \<Rightarrow> call list \<Rightarrow> db option" where
  "run cmp s [] = Some s"
| "run cmp s (c # cs) = (case step cmp s c of None \<Rightarrow> None | Some s' \<Rightarrow> run cmp s' cs)"

text \<open>The three ledger calls of a player: spend, add, buy a cosmetic.\<close>

fun ledger_call :: "call \<Rightarrow> bool" where
  "ledger_call (Spend _ _) = True"
| "ledger_call (Add _ _) = True"
| "ledger_call (BuyCosmetic _ _) = True"
| "ledger_call _ = False"

text \<open>
  An amount or price that is an integer, or is not sent; and the calls whose amount or price
  is one (a call without either passes).
\<close>

definition integer_amount :: "json \<Rightarrow> bool" where
  "integer_amount j = (case j of Absent \<Rightarrow> True | Num _ \<Rightarrow> True | Null \<Rightarrow> False | Str _ \<Rightarrow> False)"

fun integer_amounts :: "call \<Rightarrow> bool" where
  "integer_amounts (Spend _ a) = integer_amount a"
| "integer_amounts (Add _ a) = integer_amount a"
| "integer_amounts (OwnerCreditsGive _ _ a) = integer_amount a"
| "integer_amounts (OwnerCreditsSet _ _ a) = integer_amount a"
| "integer_amounts (OwnerBulkCredits _ _ a) = integer_amount a"
| "integer_amounts (OwnerCosmeticsCreate _ _ _ _ _ pr _ _) = integer_amount pr"
| "integer_amounts _ = True"

text \<open>
  The amount an owner sends to one of the three owner credit routes is not a negative integer
  (any other call passes).
\<close>

fun owner_amount_nonneg :: "call \<Rightarrow> bool" where
  "owner_amount_nonneg (OwnerCreditsGive _ _ (Num a)) = (0 \<le> a)"
| "owner_amount_nonneg (OwnerCreditsSet _ _ (Num a)) = (0 \<le> a)"
| "owner_amount_nonneg (OwnerBulkCredits _ _ (Num a)) = (0 \<le> a)"
| "owner_amount_nonneg _ = True"

section \<open>Invariants and relations\<close>

text \<open>
  The state of the ledger the claims speak of: \<^verbatim>\<open>id\<close> is the primary key of \<^verbatim>\<open>players\<close>
  (no two rows share it), and no stored balance is negative.
\<close>

definition primary_key :: "db \<Rightarrow> bool" where
  "primary_key s = distinct (map pid (players s))"

definition balances_nonneg :: "db \<Rightarrow> bool" where
  "balances_nonneg s = list_all (\<lambda>r. 0 \<le> credits r) (players s)"

text \<open>Both together: the invariant of the ledger.\<close>

definition ledger_inv :: "db \<Rightarrow> bool" where
  "ledger_inv s = (primary_key s \<and> balances_nonneg s)"

text \<open>
  The friend relation: a directed edge from \<open>a\<close> to \<open>b\<close> of any status, an edge with status
  \<^verbatim>\<open>'accepted'\<close>, and whether \<open>f\<close> is the \<^verbatim>\<open>id\<close> of a row of \<^verbatim>\<open>GET /friends\<close> for the player
  with id \<open>i\<close>.
\<close>

definition has_edge :: "db \<Rightarrow> string \<Rightarrow> string \<Rightarrow> bool" where
  "has_edge s a b =
     (\<exists>r \<in> set (friend_relationships s). fr_player_id r = a \<and> fr_friend_id r = b)"

definition accepted_edge :: "db \<Rightarrow> string \<Rightarrow> string \<Rightarrow> bool" where
  "accepted_edge s a b =
     (\<exists>r \<in> set (friend_relationships s).
        fr_player_id r = a \<and> fr_friend_id r = b \<and> status r = ''accepted'')"

definition listed_friend :: "db \<Rightarrow> string \<Rightarrow> string \<Rightarrow> bool" where
  "listed_friend s i f = (f \<in> set (map fst (friends_rows s i)))"

section \<open>Example databases\<close>

text \<open>Two players of the game \<^verbatim>\<open>g1\<close> with no credits, and nothing else.\<close>

definition alice :: player where
  "alice = \<lparr>pid = ''p1'', game_id = ''g1'', username = ''alice'', password_hash = ''h1'',
            token = Some ''t1'', credits = 0, banned = False\<rparr>"

definition bob :: player where
  "bob = \<lparr>pid = ''p2'', game_id = ''g1'', username = ''bob'', password_hash = ''h2'',
          token = Some ''t2'', credits = 0, banned = False\<rparr>"

definition db0 :: db where
  "db0 = \<lparr>players = [alice, bob], cosmetics_catalog = [], player_cosmetics = [], inventory = [],
          friend_relationships = [], OWNER_PASSWORD = ''admin1234''\<rparr>"

text \<open>A stand-in for \<^verbatim>\<open>bcrypt.compareSync\<close>: the hash of a password is the password after \<^verbatim>\<open>h\<close>.\<close>

definition compare0 :: "string \<Rightarrow> string \<Rightarrow> bool" where
  "compare0 pw h = (h = ''h'' @ pw)"

text \<open>A run that mixes player and owner routes, with integer amounts.\<close>

definition api_calls0 :: "call list" where
  "api_calls0 = [Register ''g2'' ''carol'' ''pw'' ''hpw'' ''p3'' ''t3'',
                 OwnerCreditsGive ''admin1234'' ''p3'' (Num 10),
                 Spend ''t3'' (Num 4),
                 OwnerCreditsSet ''admin1234'' ''p1'' (Num 0),
                 OwnerBulkCredits ''admin1234'' [''p1'', ''p2''] (Num 1)]"

text \<open>Alice has 5 credits; and the same database with alice at \<open>-2\<close>.\<close>

definition db6 :: db where
  "db6 = db0\<lparr>players := [alice\<lparr>credits := 5\<rparr>, bob]\<rparr>"

definition db7 :: db where
  "db7 = db0\<lparr>players := [alice\<lparr>credits := - 2\<rparr>, bob]\<rparr>"

text \<open>Alice holds two swords with metadata \<^verbatim>\<open>[1]\<close>.\<close>

definition db1 :: db where
  "db1 = db0\<lparr>inventory := [\<lparr>inv_player_id = ''p1'', item_name = ''sword'', quantity = 2,
                              metadata = Some ''[1]''\<rparr>]\<rparr>"

text \<open>Alice has 50 credits and the catalog sells one hat for 30.\<close>

definition hat :: cosmetic where
  "hat = \<lparr>c_id = ''c1'', c_game_id = ''g1'', c_name = ''Top hat'', c_type = ''hat'',
          c_description = None, price = 30, rarity = ''common''\<rparr>"

definition db2 :: db where
  "db2 = db0\<lparr>players := [alice\<lparr>credits := 50\<rparr>, bob], cosmetics_catalog := [hat]\<rparr>"

text \<open>Alice has logged in again and holds the token \<^verbatim>\<open>t9\<close>.\<close>

definition db3 :: db where
  "db3 = db0\<lparr>players := [alice\<lparr>token := Some ''t9''\<rparr>, bob]\<rparr>"

text \<open>
  Alice has accepted bob, who never sent a request (\<open>db4\<close>); alice has sent bob a request that
  is still pending (\<open>db5\<close>).
\<close>

definition db4 :: db where
  "db4 = db0\<lparr>friend_relationships :=
            [\<lparr>fr_player_id = ''p1'', fr_friend_id = ''p2'', status = ''accepted''\<rparr>]\<rparr>"

definition db5 :: db where
  "db5 = db0\<lparr>friend_relationships :=
            [\<lparr>fr_player_id = ''p1'', fr_friend_id = ''p2'', status = ''pending''\<rparr>]\<rparr>"

section \<open>Basic facts about the helpers\<close>

lemma requireAuth_Inr:
  "requireAuth s tok = Inr p \<Longrightarrow> p \<in> set (players s) \<and> token p = Some tok \<and> \<not> banned p \<and> tok \<noteq> []"
  unfolding requireAuth_def getPlayer_def
  by (auto split: if_splits option.splits simp: find_Some_iff)

lemma requireAuth_update [simp]:
  "requireAuth (s\<lparr>inventory := a\<rparr>) tok = requireAuth s tok"
  "requireAuth (s\<lparr>player_cosmetics := b\<rparr>) tok = requireAuth s tok"
  "requireAuth (s\<lparr>friend_relationships := c\<rparr>) tok = requireAuth s tok"
  "requireAuth (s\<lparr>cosmetics_catalog := d\<rparr>) tok = requireAuth s tok"
  by (simp_all add: requireAuth_def getPlayer_def)

lemma find_snoc_new: "\<forall>x \<in> set xs. \<not> P x \<Longrightarrow> P y \<Longrightarrow> find P (xs @ [y]) = Some y"
  by (induction xs) auto

lemma filter_snoc_new: "\<forall>x \<in> set xs. \<not> P x \<Longrightarrow> P y \<Longrightarrow> filter (\<lambda>x. \<not> P x) (xs @ [y]) = xs"
  by (induction xs) auto

lemma requireAuth_db0_alice: "requireAuth db0 ''t1'' = Inr alice"
  by (simp add: requireAuth_def getPlayer_def db0_def alice_def bob_def)

section \<open>Inventory\<close>

text \<open>
  C9. For a player \<open>p\<close> (authenticated by \<open>tok\<close>) with no inventory row for \<^verbatim>\<open>"sword"\<close>,
  \<^verbatim>\<open>POST /inventory/add\<close> with quantity 3 creates the row and \<^verbatim>\<open>POST /inventory/remove\<close> with
  quantity 3 then deletes it: both calls succeed and the database is back at its value before
  the two calls, so no row for \<^verbatim>\<open>"sword"\<close> is left under \<open>p\<close>.
\<close>

theorem inventory_add_remove_roundtrip:
  assumes "requireAuth s tok = Inr p"
    and "\<forall>r \<in> set (inventory s). \<not> (inv_player_id r = pid p \<and> item_name r = ''sword'')"
  shows "inventory_add s tok ''sword'' (Some 3) md =
           (Inr (), s\<lparr>inventory := inventory s @
               [\<lparr>inv_player_id = pid p, item_name = ''sword'', quantity = 3, metadata = md\<rparr>]\<rparr>)
         \<and> inventory_remove (snd (inventory_add s tok ''sword'' (Some 3) md)) tok ''sword'' (Some 3)
             = (Inr (), s)"
proof -
  let ?row = "\<lparr>inv_player_id = pid p, item_name = ''sword'', quantity = 3, metadata = md\<rparr>"
  let ?s1 = "s\<lparr>inventory := inventory s @ [?row]\<rparr>"
  have add: "inventory_add s tok ''sword'' (Some 3) md = (Inr (), ?s1)"
    using assms by (simp add: inventory_add_def upsert_inventory_def)
  have auth1: "requireAuth ?s1 tok = Inr p"
    using assms(1) by simp
  have fnd: "find (\<lambda>r. inv_player_id r = pid p \<and> item_name r = ''sword'') (inventory s @ [?row]) = Some ?row"
    using assms(2) by (intro find_snoc_new) auto
  have flt: "filter (\<lambda>r. \<not> (inv_player_id r = pid p \<and> item_name r = ''sword'')) (inventory s @ [?row]) = inventory s"
    using assms(2) by (intro filter_snoc_new) auto
  have "inventory_remove ?s1 tok ''sword'' (Some 3) = (Inr (), s)"
    using auth1 fnd flt by (simp add: inventory_remove_def)
  with add show ?thesis by simp
qed

theorem inventory_add_remove_roundtrip_witness:
  "requireAuth db0 ''t1'' = Inr alice
   \<and> inventory db0 = []
   \<and> inventory_remove (snd (inventory_add db0 ''t1'' ''sword'' (Some 3) None)) ''t1'' ''sword'' (Some 3)
       = (Inr (), db0)"
proof -
  have h1: "requireAuth db0 ''t1'' = Inr alice"
    by (rule requireAuth_db0_alice)
  have h2: "\<forall>r \<in> set (inventory db0). \<not> (inv_player_id r = pid alice \<and> item_name r = ''sword'')"
    by (simp add: db0_def)
  have h3: "inventory db0 = []"
    by (simp add: db0_def)
  from inventory_add_remove_roundtrip [OF h1 h2, of None] h1 h3 show ?thesis by blast
qed

text \<open>
  C8. When the caller already has an inventory row for the item \<open>n\<close>, \<^verbatim>\<open>POST /inventory/add\<close>
  adds the quantity sent (1 when none is sent) to the rows of the caller and \<open>n\<close> and changes
  nothing else: the metadata column of the table is what it was, whatever metadata \<open>md'\<close> the
  request carries.
\<close>

theorem inventory_add_keeps_metadata:
  assumes "requireAuth s tok = Inr p" and "n \<noteq> []"
    and "r \<in> set (inventory s)" and "inv_player_id r = pid p" and "item_name r = n"
  shows "inventory_add s tok n qty md' =
           (Inr (), s\<lparr>inventory := map (\<lambda>x. if inv_player_id x = pid p \<and> item_name x = n
                       then x\<lparr>quantity := quantity x + (case qty of None \<Rightarrow> 1 | Some q \<Rightarrow> q)\<rparr>
                       else x) (inventory s)\<rparr>)
         \<and> map metadata (inventory (snd (inventory_add s tok n qty md'))) = map metadata (inventory s)
         \<and> r\<lparr>quantity := quantity r + (case qty of None \<Rightarrow> 1 | Some q \<Rightarrow> q)\<rparr>
              \<in> set (inventory (snd (inventory_add s tok n qty md')))"
proof -
  let ?q = "case qty of None \<Rightarrow> 1 | Some q \<Rightarrow> q"
  let ?f = "\<lambda>x. if inv_player_id x = pid p \<and> item_name x = n then x\<lparr>quantity := quantity x + ?q\<rparr> else x"
  from assms(3-5) have ex: "\<exists>x \<in> set (inventory s). inv_player_id x = pid p \<and> item_name x = n"
    by blast
  with assms(1,2) have eq: "inventory_add s tok n qty md' = (Inr (), s\<lparr>inventory := map ?f (inventory s)\<rparr>)"
    by (simp add: inventory_add_def upsert_inventory_def Let_def)
  have md: "map metadata (map ?f (inventory s)) = map metadata (inventory s)"
    by (simp add: comp_def if_distrib cong: if_cong)
  from assms(3-5) have "?f r \<in> set (map ?f (inventory s))"
    by (intro imageI [of r "set (inventory s)" ?f, folded set_map])
  with assms(4,5) have mem: "r\<lparr>quantity := quantity r + ?q\<rparr> \<in> set (map ?f (inventory s))"
    by simp
  from eq md mem show ?thesis by simp
qed

theorem inventory_add_keeps_metadata_witness:
  "requireAuth db1 ''t1'' = Inr alice
   \<and> inventory_add db1 ''t1'' ''sword'' (Some 3) (Some ''[2]'')
       = (Inr (), db1\<lparr>inventory := [\<lparr>inv_player_id = ''p1'', item_name = ''sword'', quantity = 5,
                                        metadata = Some ''[1]''\<rparr>]\<rparr>)"
proof -
  let ?r = "\<lparr>inv_player_id = ''p1'', item_name = ''sword'', quantity = 2,
             metadata = Some ''[1]''\<rparr>"
  have h1: "requireAuth db1 ''t1'' = Inr alice"
    by (simp add: db1_def requireAuth_db0_alice)
  have h2: "''sword'' \<noteq> []" by simp
  have h3: "?r \<in> set (inventory db1)" by (simp add: db1_def)
  have h4: "inv_player_id ?r = pid alice" by (simp add: alice_def)
  have h5: "item_name ?r = ''sword''" by simp
  from inventory_add_keeps_metadata [OF h1 h2 h3 h4 h5, of "Some 3" "Some ''[2]''"]
  have "inventory_add db1 ''t1'' ''sword'' (Some 3) (Some ''[2]'')
       = (Inr (), db1\<lparr>inventory := [\<lparr>inv_player_id = ''p1'', item_name = ''sword'', quantity = 5,
                                        metadata = Some ''[1]''\<rparr>]\<rparr>)"
    by (simp add: db1_def alice_def)
  with h1 show ?thesis by simp
qed

text \<open>
  C7. The claim is that no inventory row ever has a quantity of zero or less.
  \<^verbatim>\<open>POST /inventory/add\<close> does not look at the sign of the quantity it is sent: on a player
  without the item, quantity 0 stores a row with quantity 0 and quantity \<open>-5\<close> a row with
  quantity \<open>-5\<close>.
\<close>

theorem inventory_add_zero_quantity:
  "inventory_add db0 ''t1'' ''sword'' (Some 0) None
     = (Inr (), db0\<lparr>inventory := [\<lparr>inv_player_id = ''p1'', item_name = ''sword'', quantity = 0,
                                      metadata = None\<rparr>]\<rparr>)
   \<and> inventory_add db0 ''t1'' ''sword'' (Some (- 5)) None
     = (Inr (), db0\<lparr>inventory := [\<lparr>inv_player_id = ''p1'', item_name = ''sword'', quantity = - 5,
                                      metadata = None\<rparr>]\<rparr>)"
  by (simp add: inventory_add_def upsert_inventory_def requireAuth_db0_alice)
     (simp add: db0_def alice_def)

section \<open>The ledger invariant\<close>

text \<open>
  Every route keeps \<open>ledger_inv\<close> when the amount or price it is sent is an integer (or is not
  sent), the owner credit routes when that integer is not negative.
\<close>

lemma pid_unique:
  "primary_key s \<Longrightarrow> p \<in> set (players s) \<Longrightarrow> r \<in> set (players s) \<Longrightarrow> pid r = pid p \<Longrightarrow> r = p"
  by (auto simp: primary_key_def distinct_map inj_on_def)

lemma primary_key_set_credits [simp]: "primary_key (set_credits f i s) = primary_key s"
  by (simp add: primary_key_def set_credits_def comp_def if_distrib [of pid] cong: if_cong)

lemma nonneg_set_credits:
  "balances_nonneg s \<Longrightarrow> (\<forall>r \<in> set (players s). pid r = i \<longrightarrow> 0 \<le> f (credits r))
    \<Longrightarrow> balances_nonneg (set_credits f i s)"
  by (auto simp: balances_nonneg_def set_credits_def list_all_iff)

lemma ledger_inv_set_credits:
  "ledger_inv s \<Longrightarrow> (\<forall>r \<in> set (players s). pid r = i \<longrightarrow> 0 \<le> f (credits r))
    \<Longrightarrow> ledger_inv (set_credits f i s)"
  by (simp add: ledger_inv_def nonneg_set_credits)

lemma ledger_inv_other_tables [simp]:
  "ledger_inv (s\<lparr>inventory := a\<rparr>) = ledger_inv s"
  "ledger_inv (s\<lparr>player_cosmetics := b\<rparr>) = ledger_inv s"
  "ledger_inv (s\<lparr>friend_relationships := c\<rparr>) = ledger_inv s"
  "ledger_inv (s\<lparr>cosmetics_catalog := d\<rparr>) = ledger_inv s"
  by (simp_all add: ledger_inv_def primary_key_def balances_nonneg_def)

lemma json_Num [simp]:
  "falsy (Num a) = (a = 0)" "js_le (Num a) n = Some (a \<le> n)" "js_less n (Num a) = Some (n < a)"
  "sql_operand (Num a) = Some a" "sql_stored (Num a) = Some a" "integer_amount (Num a)"
  by (simp_all add: falsy_def js_le_def js_less_def ToNumber_def sql_operand_def sql_stored_def
        integer_amount_def)

lemma json_Absent [simp]: "falsy Absent" "integer_amount Absent"
  by (simp_all add: falsy_def integer_amount_def)

lemma integer_amount_cases:
  "integer_amount j \<Longrightarrow> (j = Absent \<Longrightarrow> P) \<Longrightarrow> (\<And>a. j = Num a \<Longrightarrow> P) \<Longrightarrow> P"
  by (cases j) (simp_all add: integer_amount_def)

lemma ledger_inv_spend:
  assumes inv: "ledger_inv s" and int: "integer_amount amount"
  shows "\<exists>r s'. credits_spend s tok amount = Some (r, s') \<and> ledger_inv s'"
proof (cases "requireAuth s tok")
  case (Inl e)
  with inv show ?thesis by (simp add: credits_spend_def)
next
  case (Inr p)
  then have p: "p \<in> set (players s)" by (simp add: requireAuth_Inr)
  from int show ?thesis
  proof (rule integer_amount_cases)
    assume "amount = Absent"
    with Inr inv show ?thesis by (simp add: credits_spend_def)
  next
    fix a assume a: "amount = Num a"
    have "ledger_inv (set_credits (\<lambda>c. c - a) (pid p) s)" if "\<not> credits p < a"
    proof (rule ledger_inv_set_credits [OF inv], intro ballI impI)
      fix r assume "r \<in> set (players s)" "pid r = pid p"
      with inv p have "r = p" by (auto simp: ledger_inv_def dest: pid_unique)
      with that show "0 \<le> credits r - a" by simp
    qed
    with Inr a inv show ?thesis by (simp add: credits_spend_def Let_def)
  qed
qed

lemma ledger_inv_add:
  assumes inv: "ledger_inv s" and int: "integer_amount amount"
  shows "\<exists>r s'. credits_add s tok amount = Some (r, s') \<and> ledger_inv s'"
proof -
  have pos: "ledger_inv (set_credits (\<lambda>c. c + a) i s)" if "0 < a" for a i
    using inv that
    by (intro ledger_inv_set_credits) (auto simp: ledger_inv_def balances_nonneg_def list_all_iff)
  from int show ?thesis
  proof (rule integer_amount_cases)
    assume "amount = Absent"
    with inv show ?thesis by (simp add: credits_add_def split: sum.splits)
  next
    fix a assume "amount = Num a"
    with inv pos show ?thesis
      by (auto simp: credits_add_def Let_def split: sum.splits)
  qed
qed

lemma ledger_inv_insert_player_cosmetic:
  "insert_player_cosmetic s i c = Some s' \<Longrightarrow> ledger_inv s' = ledger_inv s"
  by (auto simp: insert_player_cosmetic_def split: if_splits)

lemma ledger_inv_buy: "ledger_inv s \<Longrightarrow> ledger_inv (snd (cosmetics_buy s tok c))"
proof -
  assume inv: "ledger_inv s"
  show ?thesis
  proof (cases "requireAuth s tok")
    case (Inl e)
    with inv show ?thesis by (simp add: cosmetics_buy_def)
  next
    case (Inr p)
    then have p: "p \<in> set (players s)" by (simp add: requireAuth_Inr)
    have "ledger_inv (set_credits (\<lambda>c. c - x) (pid p) s)" if "\<not> credits p < x" for x
    proof (rule ledger_inv_set_credits [OF inv], intro ballI impI)
      fix r assume "r \<in> set (players s)" "pid r = pid p"
      with inv p have "r = p" by (auto simp: ledger_inv_def dest: pid_unique)
      with that show "0 \<le> credits r - x" by simp
    qed
    with Inr inv show ?thesis
      by (auto simp: cosmetics_buy_def Let_def ledger_inv_insert_player_cosmetic
               split: option.splits)
  qed
qed

lemma ledger_inv_same_ledger:
  "map pid (players s') = map pid (players s) \<Longrightarrow> map credits (players s') = map credits (players s)
    \<Longrightarrow> ledger_inv s' = ledger_inv s"
proof -
  assume a: "map pid (players s') = map pid (players s)"
    and b: "map credits (players s') = map credits (players s)"
  have "list_all (\<lambda>r. 0 \<le> credits r) xs = list_all (\<lambda>c. 0 \<le> c) (map credits xs)" for xs :: "player list"
    by (simp add: list_all_iff)
  with a b show ?thesis
    by (simp add: ledger_inv_def primary_key_def balances_nonneg_def)
qed

lemma ledger_inv_register: "ledger_inv s \<Longrightarrow> ledger_inv (snd (register s g u pw hash i tok))"
  by (auto simp: register_def insert_player_def ledger_inv_def primary_key_def balances_nonneg_def
           split: option.splits if_splits)

lemma ledger_inv_login: "ledger_inv s \<Longrightarrow> ledger_inv (snd (login cmp s g u pw tok))"
proof -
  have "ledger_inv (s\<lparr>players := map (\<lambda>r. if pid r = i then r\<lparr>token := Some tok\<rparr> else r) (players s)\<rparr>)
          = ledger_inv s" for i
    by (rule ledger_inv_same_ledger) (simp_all add: comp_def if_distrib cong: if_cong)
  then show "ledger_inv s \<Longrightarrow> ?thesis"
    by (auto simp: login_def split: option.splits)
qed

lemma ledger_inv_upsert_inventory [simp]: "ledger_inv (upsert_inventory s i n q md) = ledger_inv s"
  by (simp add: upsert_inventory_def)

lemma ledger_inv_inventory_add: "ledger_inv s \<Longrightarrow> ledger_inv (snd (inventory_add s tok n qty md))"
  by (auto simp: inventory_add_def Let_def split: sum.splits)

lemma ledger_inv_inventory_remove: "ledger_inv s \<Longrightarrow> ledger_inv (snd (inventory_remove s tok n qty))"
  by (auto simp: inventory_remove_def Let_def split: sum.splits option.splits)

lemma ledger_inv_equip: "ledger_inv s \<Longrightarrow> ledger_inv (snd (cosmetics_equip s tok c eq))"
  by (auto simp: cosmetics_equip_def split: sum.splits)

lemma ledger_inv_owner_give:
  assumes inv: "ledger_inv s" and int: "integer_amount amount"
    and ok: "owner_amount_nonneg (OwnerCreditsGive key i amount)"
  shows "\<exists>r s'. owner_credits_give s key i amount = Some (r, s') \<and> ledger_inv s'"
proof -
  have nn: "ledger_inv (set_credits (\<lambda>c. c + a) i s)" if "0 \<le> a" for a
    using inv that
    by (intro ledger_inv_set_credits) (auto simp: ledger_inv_def balances_nonneg_def list_all_iff)
  from int show ?thesis
  proof (rule integer_amount_cases)
    assume "amount = Absent"
    with inv show ?thesis by (simp add: owner_credits_give_def split: sum.splits)
  next
    fix a assume "amount = Num a"
    with inv ok nn show ?thesis
      by (auto simp: owner_credits_give_def Let_def split: sum.splits)
  qed
qed

lemma ledger_inv_owner_set:
  assumes inv: "ledger_inv s" and int: "integer_amount amount"
    and ok: "owner_amount_nonneg (OwnerCreditsSet key i amount)"
  shows "\<exists>r s'. owner_credits_set s key i amount = Some (r, s') \<and> ledger_inv s'"
proof -
  have nn: "ledger_inv (set_credits (\<lambda>c. a) i s)" if "0 \<le> a" for a
    using inv that by (intro ledger_inv_set_credits) auto
  from int show ?thesis
  proof (rule integer_amount_cases)
    assume "amount = Absent"
    with inv show ?thesis by (simp add: owner_credits_set_def split: sum.splits)
  next
    fix a assume "amount = Num a"
    with inv ok nn show ?thesis
      by (auto simp: owner_credits_set_def Let_def split: sum.splits)
  qed
qed

lemma ledger_inv_set_banned [simp]: "ledger_inv (set_banned b i s) = ledger_inv s"
  by (rule ledger_inv_same_ledger) (simp_all add: set_banned_def comp_def if_distrib cong: if_cong)

lemma ledger_inv_owner_ban: "ledger_inv s \<Longrightarrow> ledger_inv (snd (owner_ban s key i b))"
  by (auto simp: owner_ban_def Let_def split: sum.splits)

lemma ledger_inv_delete_player: "ledger_inv s \<Longrightarrow> ledger_inv (delete_player i s)"
  by (auto simp: delete_player_def ledger_inv_def primary_key_def balances_nonneg_def
                 distinct_map_filter list_all_iff)

lemma ledger_inv_owner_player_delete: "ledger_inv s \<Longrightarrow> ledger_inv (snd (owner_player_delete s key i))"
  by (auto simp: owner_player_delete_def ledger_inv_delete_player split: sum.splits)

lemma ledger_inv_cosmetics_create:
  assumes inv: "ledger_inv s" and int: "integer_amount pr"
  shows "\<exists>r s'. owner_cosmetics_create s key g nm ty descr pr rar i = Some (r, s') \<and> ledger_inv s'"
  using int
proof (rule integer_amount_cases)
  assume "pr = Absent"
  with inv show ?thesis by (auto simp: owner_cosmetics_create_def split: sum.splits)
next
  fix a assume "pr = Num a"
  with inv show ?thesis by (auto simp: owner_cosmetics_create_def split: sum.splits)
qed

lemma ledger_inv_cosmetics_delete: "ledger_inv s \<Longrightarrow> ledger_inv (snd (owner_cosmetics_delete s key i))"
  by (auto simp: owner_cosmetics_delete_def split: sum.splits)

lemma ledger_inv_cosmetics_grant: "ledger_inv s \<Longrightarrow> ledger_inv (snd (owner_cosmetics_grant s key i c))"
  by (auto simp: owner_cosmetics_grant_def ledger_inv_insert_player_cosmetic
           split: sum.splits option.splits)

lemma ledger_inv_inventory_give: "ledger_inv s \<Longrightarrow> ledger_inv (snd (owner_inventory_give s key i n qty))"
  by (auto simp: owner_inventory_give_def Let_def split: sum.splits)

lemma ledger_inv_reset_password:
  "ledger_inv s \<Longrightarrow> ledger_inv (snd (owner_reset_password s key i pw hash tok))"
proof -
  have "ledger_inv (s\<lparr>players := map (\<lambda>r. if pid r = i then r\<lparr>password_hash := hash, token := Some tok\<rparr>
                                          else r) (players s)\<rparr>) = ledger_inv s"
    by (rule ledger_inv_same_ledger) (simp_all add: comp_def if_distrib cong: if_cong)
  then show "ledger_inv s \<Longrightarrow> ?thesis"
    by (auto simp: owner_reset_password_def split: sum.splits option.splits)
qed

lemma ledger_inv_fold: "(\<And>i s. P s \<Longrightarrow> P (f i s)) \<Longrightarrow> P s \<Longrightarrow> P (fold f ids s)"
  by (induction ids arbitrary: s) auto

lemma ledger_inv_bulk_ban: "ledger_inv s \<Longrightarrow> ledger_inv (snd (owner_bulk_ban s key ids b))"
  by (auto simp: owner_bulk_ban_def Let_def split: sum.splits intro: ledger_inv_fold)

lemma ledger_inv_bulk_credits:
  assumes inv: "ledger_inv s" and int: "integer_amount amount"
    and ok: "owner_amount_nonneg (OwnerBulkCredits key ids amount)"
  shows "\<exists>r s'. owner_bulk_credits s key ids amount = Some (r, s') \<and> ledger_inv s'"
proof -
  have one: "ledger_inv (set_credits (\<lambda>c. c + a) i s')" if "0 \<le> a" "ledger_inv s'" for a i s'
    using that
    by (intro ledger_inv_set_credits) (auto simp: ledger_inv_def balances_nonneg_def list_all_iff)
  have all: "ledger_inv (fold (set_credits (\<lambda>c. c + a)) ids s)" if "0 \<le> a" for a
    using inv one [OF that] by (rule ledger_inv_fold [rotated])
  from int show ?thesis
  proof (rule integer_amount_cases)
    assume "amount = Absent"
    with inv show ?thesis by (simp add: owner_bulk_credits_def split: sum.splits)
  next
    fix a assume "amount = Num a"
    with inv ok all show ?thesis
      by (auto simp: owner_bulk_credits_def split: sum.splits)
  qed
qed

lemma ledger_inv_bulk_delete: "ledger_inv s \<Longrightarrow> ledger_inv (snd (owner_bulk_delete s key ids))"
  by (auto simp: owner_bulk_delete_def split: sum.splits intro: ledger_inv_fold ledger_inv_delete_player)

lemma ledger_inv_insert_friend [simp]: "ledger_inv (insert_or_ignore_friend s i f st) = ledger_inv s"
  by (simp add: insert_or_ignore_friend_def)

lemma ledger_inv_friends_request: "ledger_inv s \<Longrightarrow> ledger_inv (snd (friends_request s tok u))"
  by (auto simp: friends_request_def split: sum.splits option.splits)

lemma ledger_inv_friends_accept: "ledger_inv s \<Longrightarrow> ledger_inv (snd (friends_accept s tok i))"
  by (auto simp: friends_accept_def Let_def split: sum.splits)

lemma ledger_inv_step:
  assumes inv: "ledger_inv s" and int: "integer_amounts c" and ok: "owner_amount_nonneg c"
  shows "\<exists>s'. step cmp s c = Some s' \<and> ledger_inv s'"
proof (cases c)
  case (Spend tok amount)
  with ledger_inv_spend [OF inv, of amount tok] int show ?thesis by auto
next
  case (Add tok amount)
  with ledger_inv_add [OF inv, of amount tok] int show ?thesis by auto
next
  case (OwnerCreditsGive key i amount)
  with ledger_inv_owner_give [OF inv, of amount key i] int ok show ?thesis by auto
next
  case (OwnerCreditsSet key i amount)
  with ledger_inv_owner_set [OF inv, of amount key i] int ok show ?thesis by auto
next
  case (OwnerCosmeticsCreate key g nm ty descr pr rar i)
  with ledger_inv_cosmetics_create [OF inv, of pr key g nm ty descr rar i] int show ?thesis by auto
next
  case (OwnerBulkCredits key ids amount)
  with ledger_inv_bulk_credits [OF inv, of amount key ids] int ok show ?thesis by auto
qed (simp_all add: inv ledger_inv_register ledger_inv_login
        ledger_inv_inventory_add ledger_inv_inventory_remove ledger_inv_buy ledger_inv_equip
        ledger_inv_owner_ban ledger_inv_owner_player_delete ledger_inv_cosmetics_delete
        ledger_inv_cosmetics_grant ledger_inv_inventory_give ledger_inv_reset_password
        ledger_inv_bulk_ban ledger_inv_bulk_delete
        ledger_inv_friends_request ledger_inv_friends_accept)

lemma ledger_inv_run:
  "ledger_inv s \<Longrightarrow> list_all integer_amounts cs \<Longrightarrow> list_all owner_amount_nonneg cs \<Longrightarrow>
   \<exists>s'. run cmp s cs = Some s' \<and> ledger_inv s'"
proof (induction cs arbitrary: s)
  case Nil
  then show ?case by simp
next
  case (Cons c cs)
  from Cons.prems obtain s1 where s1: "step cmp s c = Some s1" "ledger_inv s1"
    using ledger_inv_step [of s c cmp] by auto
  from Cons.IH [OF s1(2)] Cons.prems s1(1) show ?case by simp
qed

section \<open>Reading the balance back\<close>

lemma find_pid_map:
  "(\<And>r. pid (g r) = pid r) \<Longrightarrow>
   find (\<lambda>r. pid r = i) (map (\<lambda>r. if pid r = i then g r else r) xs)
     = map_option g (find (\<lambda>r. pid r = i) xs)"
  by (induction xs) auto

lemma select_credits_set_credits:
  "select_credits (set_credits f i s) i
     = (case select_credits s i of Inl e \<Rightarrow> Inl e | Inr c \<Rightarrow> Inr (f c))"
  by (simp add: select_credits_def set_credits_def find_pid_map split: option.splits)

lemma select_credits_member:
  "p \<in> set (players s) \<Longrightarrow> \<exists>c. select_credits s (pid p) = Inr c"
  by (auto simp: select_credits_def find_None_iff split: option.splits)

lemma select_credits_other_tables [simp]:
  "select_credits (s\<lparr>player_cosmetics := x\<rparr>) i = select_credits s i"
  by (simp add: select_credits_def)

lemma owns_set_credits [simp]: "owns (set_credits f i s) j c = owns s j c"
  by (simp add: owns_def set_credits_def)

lemma cosmetics_buy_failure:
  "fst (cosmetics_buy s tok c) = Inl e \<Longrightarrow> snd (cosmetics_buy s tok c) = s"
proof (cases "requireAuth s tok")
  case (Inl e')
  then show ?thesis by (simp add: cosmetics_buy_def)
next
  case (Inr p)
  assume f: "fst (cosmetics_buy s tok c) = Inl e"
  from Inr have "p \<in> set (players s)" by (simp add: requireAuth_Inr)
  then obtain n where "select_credits s (pid p) = Inr n"
    using select_credits_member by blast
  with f Inr show ?thesis
    by (auto simp: cosmetics_buy_def Let_def insert_player_cosmetic_def select_credits_set_credits
             split: option.splits if_splits)
qed

section \<open>Balances are never negative\<close>

lemma db0_primary_key: "primary_key db0"
  by (simp add: primary_key_def db0_def alice_def bob_def)

lemma db0_balances_nonneg: "balances_nonneg db0"
  by (simp add: balances_nonneg_def db0_def alice_def bob_def)

lemma requireAuth_db6_alice: "requireAuth db6 ''t1'' = Inr (alice\<lparr>credits := 5\<rparr>)"
  by (simp add: requireAuth_def getPlayer_def db6_def db0_def alice_def bob_def)

lemma reading_7abc:
  "falsy (Str ''7abc'') = False" "js_le (Str ''7abc'') 0 = Some False"
  "js_less n (Str ''7abc'') = Some False" "sql_operand (Str ''7abc'') = Some 7"
  by (simp_all add: falsy_def js_le_def js_less_def ToNumber_def StringToNumber_def
        integer_literal_def strip_sign_def is_digit_def plain_char_def decimal_char_def
        sql_operand_def text_numeric_def digits_value_def digit_value_def)

lemma reading_minus_7abc:
  "falsy (Str ''-7abc'') = False" "js_le (Str ''-7abc'') 0 = Some False"
  "sql_operand (Str ''-7abc'') = Some (- 7)"
  by (simp_all add: falsy_def js_le_def ToNumber_def StringToNumber_def
        integer_literal_def strip_sign_def is_digit_def plain_char_def decimal_char_def
        sql_operand_def text_numeric_def digits_value_def digit_value_def)

text \<open>
  C3. The claim is that no sequence of spend, add and buy calls, with arbitrary arguments,
  makes a balance negative. \<^verbatim>\<open>POST /credits/spend\<close> with the amount \<^verbatim>\<open>"7abc"\<close> passes both guards,
  since \<^verbatim>\<open>"7abc" <= 0\<close> and \<^verbatim>\<open>5 < "7abc"\<close> compare with \<^verbatim>\<open>NaN\<close> and are false, and SQLite then
  subtracts 7: alice, who has 5 credits, is answered with success and left with \<open>-2\<close>.
  \<^verbatim>\<open>POST /credits/add\<close> with \<^verbatim>\<open>"-7abc"\<close> does the same.
\<close>

theorem credits_spend_text_amount:
  "primary_key db6 \<and> balances_nonneg db6
   \<and> list_all ledger_call [Spend ''t1'' (Str ''7abc'')]
   \<and> credits_spend db6 ''t1'' (Str ''7abc'') = Some (Inr (- 2), db7)
   \<and> credits_add db6 ''t1'' (Str ''-7abc'') = Some (Inr (- 2), db7)
   \<and> run compare0 db6 [Spend ''t1'' (Str ''7abc'')] = Some db7
   \<and> \<not> balances_nonneg db7"
proof -
  have "primary_key db6" "balances_nonneg db6"
    by (simp_all add: primary_key_def balances_nonneg_def db6_def db0_def alice_def bob_def)
  moreover have after: "set_credits (\<lambda>c. c - 7) (pid alice) db6 = db7"
    by (simp add: set_credits_def db6_def db7_def db0_def alice_def bob_def)
  moreover have readback: "select_credits db7 (pid alice) = Inr (- 2)"
    by (simp add: select_credits_def db7_def db0_def alice_def bob_def)
  moreover have spend: "credits_spend db6 ''t1'' (Str ''7abc'') = Some (Inr (- 2), db7)"
    by (simp add: credits_spend_def requireAuth_db6_alice reading_7abc after readback)
  moreover have "credits_add db6 ''t1'' (Str ''-7abc'') = Some (Inr (- 2), db7)"
    by (simp add: credits_add_def requireAuth_db6_alice reading_minus_7abc after readback)
  moreover have "\<not> balances_nonneg db7"
    by (simp add: balances_nonneg_def db7_def db0_def alice_def bob_def)
  ultimately show ?thesis
    by (simp add: spend)
qed

lemma credits_spend_insufficient:
  "requireAuth s tok = Inr p \<Longrightarrow> credits p < a \<Longrightarrow>
   \<exists>e. credits_spend s tok (Num a) = Some (Inl e, s)"
  by (simp add: credits_spend_def)

lemma cosmetics_buy_insufficient:
  "requireAuth s tok = Inr p \<Longrightarrow> find (\<lambda>x. c_id x = c) (cosmetics_catalog s) = Some item \<Longrightarrow>
   credits p < price item \<Longrightarrow> \<exists>e. cosmetics_buy s tok c = (Inl e, s)"
  by (simp add: cosmetics_buy_def)

text \<open>
  C1, as amended. The owner routes \<^verbatim>\<open>/owner/credits/give\<close>, \<^verbatim>\<open>/owner/credits/set\<close> and
  \<^verbatim>\<open>/owner/bulk/credits\<close> store whatever amount they are sent. For every sequence of requests to
  the routes of the server in which every amount and price that is sent is an integer and the
  amounts sent to these three routes are not negative, each request is handled within the
  integers and no stored balance is negative after any prefix of the sequence. A spend of an
  integer above the caller's balance and a purchase of a cosmetic priced above it are answered
  with an error and leave the database as it was. Nothing is said here of an amount or price
  that is not an integer.
\<close>

theorem api_calls_keep_balance_nonneg:
  assumes "primary_key s" and "balances_nonneg s"
    and "list_all integer_amounts cs" and "list_all owner_amount_nonneg cs"
  shows "(\<exists>s'. run cmp s (take k cs) = Some s' \<and> balances_nonneg s')
         \<and> (\<forall>s' tok p a. requireAuth s' tok = Inr p \<and> credits p < a
               \<longrightarrow> (\<exists>e. credits_spend s' tok (Num a) = Some (Inl e, s')))
         \<and> (\<forall>s' tok p c item. requireAuth s' tok = Inr p
               \<and> find (\<lambda>x. c_id x = c) (cosmetics_catalog s') = Some item \<and> credits p < price item
               \<longrightarrow> (\<exists>e. cosmetics_buy s' tok c = (Inl e, s')))"
proof -
  from assms(3,4) have "list_all integer_amounts (take k cs)"
    and "list_all owner_amount_nonneg (take k cs)"
    by (auto simp: list_all_iff dest: in_set_takeD)
  with assms(1,2) have "\<exists>s'. run cmp s (take k cs) = Some s' \<and> ledger_inv s'"
    by (intro ledger_inv_run) (simp_all add: ledger_inv_def)
  then have "\<exists>s'. run cmp s (take k cs) = Some s' \<and> balances_nonneg s'"
    by (auto simp: ledger_inv_def)
  then show ?thesis
    using credits_spend_insufficient cosmetics_buy_insufficient by blast
qed

lemma api_calls0_run:
  "map_option (\<lambda>s. map credits (players s)) (run compare0 db0 api_calls0) = Some [1, 1, 6]"
  by (simp add: api_calls0_def register_def insert_player_def owner_credits_give_def
        owner_credits_set_def owner_bulk_credits_def requireOwner_def changes_def
        credits_spend_def requireAuth_def
        getPlayer_def set_credits_def select_credits_def db0_def alice_def bob_def Let_def)

theorem api_calls_keep_balance_nonneg_witness:
  "primary_key db0 \<and> balances_nonneg db0
   \<and> list_all integer_amounts api_calls0 \<and> list_all owner_amount_nonneg api_calls0
   \<and> map_option (\<lambda>s. map credits (players s)) (run compare0 db0 api_calls0) = Some [1, 1, 6]
   \<and> (\<exists>s'. run compare0 db0 (take 5 api_calls0) = Some s' \<and> balances_nonneg s')"
proof -
  have h: "list_all integer_amounts api_calls0" "list_all owner_amount_nonneg api_calls0"
    by (simp_all add: api_calls0_def)
  from api_calls_keep_balance_nonneg [OF db0_primary_key db0_balances_nonneg h, of compare0 5]
  show ?thesis
    using db0_primary_key db0_balances_nonneg h api_calls0_run by blast
qed

text \<open>
  The claim C1 as it is written also covers the owner routes, and fails there:
  \<^verbatim>\<open>POST /owner/credits/set\<close> with amount \<open>-1\<close> is answered with success and stores \<open>-1\<close>.
\<close>

theorem owner_credits_set_negative:
  "primary_key db0 \<and> balances_nonneg db0
   \<and> owner_credits_set db0 ''admin1234'' ''p1'' (Num (- 1))
        = Some (Inr (- 1), db0\<lparr>players := [alice\<lparr>credits := - 1\<rparr>, bob]\<rparr>)
   \<and> run compare0 db0 [OwnerCreditsSet ''admin1234'' ''p1'' (Num (- 1))]
        = Some (db0\<lparr>players := [alice\<lparr>credits := - 1\<rparr>, bob]\<rparr>)
   \<and> \<not> balances_nonneg (db0\<lparr>players := [alice\<lparr>credits := - 1\<rparr>, bob]\<rparr>)"
proof -
  have set: "owner_credits_set db0 ''admin1234'' ''p1'' (Num (- 1))
        = Some (Inr (- 1), db0\<lparr>players := [alice\<lparr>credits := - 1\<rparr>, bob]\<rparr>)"
    by (simp add: owner_credits_set_def requireOwner_def changes_def set_credits_def
          db0_def alice_def bob_def)
  have "\<not> balances_nonneg (db0\<lparr>players := [alice\<lparr>credits := - 1\<rparr>, bob]\<rparr>)"
    by (simp add: balances_nonneg_def)
  with set show ?thesis
    by (simp add: db0_primary_key db0_balances_nonneg)
qed

section \<open>Buying a cosmetic\<close>

lemma find_map_preserve:
  "(\<And>r. P (g r) = P r) \<Longrightarrow> find P (map g xs) = map_option g (find P xs)"
  by (induction xs) auto

lemma getPlayer_map:
  "(\<And>r. token (g r) = token r) \<Longrightarrow>
   getPlayer (s\<lparr>players := map g (players s)\<rparr>) tok = map_option g (getPlayer s tok)"
  by (simp add: getPlayer_def find_map_preserve)

lemma requireAuth_map:
  "(\<And>r. token (g r) = token r) \<Longrightarrow> (\<And>r. banned (g r) = banned r) \<Longrightarrow>
   requireAuth (s\<lparr>players := map g (players s)\<rparr>) tok =
     (case requireAuth s tok of Inl e \<Rightarrow> Inl e | Inr r \<Rightarrow> Inr (g r))"
  by (cases "getPlayer s tok") (simp_all add: requireAuth_def getPlayer_map)

lemma requireAuth_set_credits:
  "requireAuth (set_credits f i s) tok =
     (case requireAuth s tok of
        Inl e \<Rightarrow> Inl e
      | Inr r \<Rightarrow> Inr (if pid r = i then r\<lparr>credits := f (credits r)\<rparr> else r))"
  unfolding set_credits_def by (rule requireAuth_map) simp_all

lemma cosmetics_buy_success:
  assumes "requireAuth s tok = Inr p" and "c \<noteq> []"
    and "find (\<lambda>x. c_id x = c) (cosmetics_catalog s) = Some item"
    and "\<not> owns s (pid p) c" and "\<not> credits p < price item"
  shows "snd (cosmetics_buy s tok c) =
           set_credits (\<lambda>x. x - price item) (pid p) s
             \<lparr>player_cosmetics := player_cosmetics s @
                [\<lparr>pc_player_id = pid p, pc_cosmetic_id = c, equipped = False\<rparr>]\<rparr>"
    and "\<exists>n. fst (cosmetics_buy s tok c) = Inr n"
proof -
  from assms(1) have "p \<in> set (players s)" by (simp add: requireAuth_Inr)
  then obtain n where n: "select_credits s (pid p) = Inr n"
    using select_credits_member by blast
  have pc: "player_cosmetics (set_credits g i s) = player_cosmetics s" for g i
    by (simp add: set_credits_def)
  from assms show "snd (cosmetics_buy s tok c) =
           set_credits (\<lambda>x. x - price item) (pid p) s
             \<lparr>player_cosmetics := player_cosmetics s @
                [\<lparr>pc_player_id = pid p, pc_cosmetic_id = c, equipped = False\<rparr>]\<rparr>"
    by (simp add: cosmetics_buy_def Let_def insert_player_cosmetic_def pc)
  from assms n show "\<exists>n. fst (cosmetics_buy s tok c) = Inr n"
    by (simp add: cosmetics_buy_def Let_def insert_player_cosmetic_def select_credits_set_credits)
qed

text \<open>
  C2. For an authenticated player \<open>p\<close> and a cosmetic id \<open>c\<close> that the request carries,
  \<^verbatim>\<open>POST /cosmetics/buy\<close> answers 404 when \<open>c\<close> is not in the catalog, 409 when \<open>p\<close> owns \<open>c\<close>,
  and 400 \<^verbatim>\<open>Not enough credits\<close> when the price is above the balance of \<open>p\<close>; every error answer
  leaves the database as it was. When the first of two successive calls succeeds, the balance
  of \<open>p\<close> is the old one less the price, and the second call answers 409 and changes nothing: the
  price is debited once.
\<close>

theorem cosmetics_buy_errors_and_single_debit:
  assumes "requireAuth s tok = Inr p" and "c \<noteq> []"
  shows "(find (\<lambda>x. c_id x = c) (cosmetics_catalog s) = None
            \<longrightarrow> cosmetics_buy s tok c = (Inl (404, ''Cosmetic not found''), s))
       \<and> (\<forall>item. find (\<lambda>x. c_id x = c) (cosmetics_catalog s) = Some item \<and> owns s (pid p) c
            \<longrightarrow> cosmetics_buy s tok c = (Inl (409, ''Already owned''), s))
       \<and> (\<forall>item. find (\<lambda>x. c_id x = c) (cosmetics_catalog s) = Some item \<and> \<not> owns s (pid p) c
               \<and> credits p < price item
            \<longrightarrow> cosmetics_buy s tok c = (Inl (400, ''Not enough credits''), s))
       \<and> (\<forall>e. fst (cosmetics_buy s tok c) = Inl e \<longrightarrow> snd (cosmetics_buy s tok c) = s)
       \<and> (\<forall>item. find (\<lambda>x. c_id x = c) (cosmetics_catalog s) = Some item \<and> \<not> owns s (pid p) c
               \<and> \<not> credits p < price item
            \<longrightarrow> (\<exists>n. fst (cosmetics_buy s tok c) = Inr n)
               \<and> requireAuth (snd (cosmetics_buy s tok c)) tok = Inr (p\<lparr>credits := credits p - price item\<rparr>)
               \<and> cosmetics_buy (snd (cosmetics_buy s tok c)) tok c
                    = (Inl (409, ''Already owned''), snd (cosmetics_buy s tok c)))"
proof (intro conjI allI impI)
  assume "find (\<lambda>x. c_id x = c) (cosmetics_catalog s) = None"
  with assms show "cosmetics_buy s tok c = (Inl (404, ''Cosmetic not found''), s)"
    by (simp add: cosmetics_buy_def)
next
  fix item
  assume "find (\<lambda>x. c_id x = c) (cosmetics_catalog s) = Some item \<and> owns s (pid p) c"
  with assms show "cosmetics_buy s tok c = (Inl (409, ''Already owned''), s)"
    by (simp add: cosmetics_buy_def)
next
  fix item
  assume "find (\<lambda>x. c_id x = c) (cosmetics_catalog s) = Some item \<and> \<not> owns s (pid p) c
            \<and> credits p < price item"
  with assms show "cosmetics_buy s tok c = (Inl (400, ''Not enough credits''), s)"
    by (simp add: cosmetics_buy_def)
next
  fix e
  assume "fst (cosmetics_buy s tok c) = Inl e"
  then show "snd (cosmetics_buy s tok c) = s" by (rule cosmetics_buy_failure)
next
  fix item
  assume a: "find (\<lambda>x. c_id x = c) (cosmetics_catalog s) = Some item \<and> \<not> owns s (pid p) c
            \<and> \<not> credits p < price item"
  let ?s1 = "snd (cosmetics_buy s tok c)"
  from a have a1: "find (\<lambda>x. c_id x = c) (cosmetics_catalog s) = Some item"
    and a2: "\<not> owns s (pid p) c" and a3: "\<not> credits p < price item"
    by blast+
  have s1: "?s1 = set_credits (\<lambda>x. x - price item) (pid p) s
             \<lparr>player_cosmetics := player_cosmetics s @
                [\<lparr>pc_player_id = pid p, pc_cosmetic_id = c, equipped = False\<rparr>]\<rparr>"
    by (rule cosmetics_buy_success (1) [OF assms a1 a2 a3])
  show "\<exists>n. fst (cosmetics_buy s tok c) = Inr n"
    by (rule cosmetics_buy_success (2) [OF assms a1 a2 a3])
  from assms(1) show auth1: "requireAuth ?s1 tok = Inr (p\<lparr>credits := credits p - price item\<rparr>)"
    by (simp add: s1 requireAuth_set_credits)
  have cat: "cosmetics_catalog ?s1 = cosmetics_catalog s"
    by (simp add: s1 set_credits_def)
  have own: "owns ?s1 (pid p) c"
    by (simp add: s1 owns_def)
  from auth1 cat own a assms(2) show "cosmetics_buy ?s1 tok c = (Inl (409, ''Already owned''), ?s1)"
    by (simp add: cosmetics_buy_def)
qed

lemma requireAuth_db2_alice: "requireAuth db2 ''t1'' = Inr (alice\<lparr>credits := 50\<rparr>)"
  by (simp add: requireAuth_def getPlayer_def db2_def db0_def alice_def bob_def)

lemma cosmetics_buy_db2:
  "cosmetics_buy db2 ''t1'' ''c1'' =
     (Inr 20, db2\<lparr>players := [alice\<lparr>credits := 20\<rparr>, bob],
                   player_cosmetics := [\<lparr>pc_player_id = ''p1'', pc_cosmetic_id = ''c1'',
                                          equipped = False\<rparr>]\<rparr>)"
  by (simp add: cosmetics_buy_def requireAuth_db2_alice)
     (simp add: db2_def db0_def alice_def bob_def hat_def owns_def set_credits_def
        insert_player_cosmetic_def select_credits_def)

theorem cosmetics_buy_errors_and_single_debit_witness:
  "requireAuth db2 ''t1'' = Inr (alice\<lparr>credits := 50\<rparr>)
   \<and> cosmetics_buy db2 ''t1'' ''c9'' = (Inl (404, ''Cosmetic not found''), db2)
   \<and> cosmetics_buy db2 ''t1'' ''c1'' =
       (Inr 20, db2\<lparr>players := [alice\<lparr>credits := 20\<rparr>, bob],
                     player_cosmetics := [\<lparr>pc_player_id = ''p1'', pc_cosmetic_id = ''c1'',
                                            equipped = False\<rparr>]\<rparr>)
   \<and> cosmetics_buy (snd (cosmetics_buy db2 ''t1'' ''c1'')) ''t1'' ''c1''
       = (Inl (409, ''Already owned''), snd (cosmetics_buy db2 ''t1'' ''c1''))"
proof -
  have f1: "find (\<lambda>x. c_id x = ''c9'') (cosmetics_catalog db2) = None"
    by (simp add: db2_def hat_def)
  have f2: "find (\<lambda>x. c_id x = ''c1'') (cosmetics_catalog db2) = Some hat
            \<and> \<not> owns db2 (pid (alice\<lparr>credits := 50\<rparr>)) ''c1''
            \<and> \<not> credits (alice\<lparr>credits := 50\<rparr>) < price hat"
    by (simp add: db2_def db0_def hat_def owns_def)
  have n1: "''c9'' \<noteq> []" and n2: "''c1'' \<noteq> []" by simp_all
  from cosmetics_buy_errors_and_single_debit [OF requireAuth_db2_alice n1] f1
  have "cosmetics_buy db2 ''t1'' ''c9'' = (Inl (404, ''Cosmetic not found''), db2)"
    by blast
  moreover from cosmetics_buy_errors_and_single_debit [OF requireAuth_db2_alice n2] f2
  have "cosmetics_buy (snd (cosmetics_buy db2 ''t1'' ''c1'')) ''t1'' ''c1''
       = (Inl (409, ''Already owned''), snd (cosmetics_buy db2 ''t1'' ''c1''))"
    by blast
  ultimately show ?thesis
    using requireAuth_db2_alice cosmetics_buy_db2 by blast
qed

section \<open>Registration and login\<close>

text \<open>
  C5. With game id, username and password sent: when a player \<open>q\<close> with game id \<open>g\<close> and
  username \<open>u\<close> exists, \<^verbatim>\<open>POST /register\<close> for \<open>(g, u)\<close> answers 409 and leaves the database as it
  was; for another game id \<open>g'\<close> under which \<open>u\<close> is not yet registered the same username is
  accepted (the \<^verbatim>\<open>uuidv4()\<close> id being new), and the one new row has balance 0.
\<close>

theorem register_unique_per_game:
  assumes "g \<noteq> []" and "u \<noteq> []" and "pw \<noteq> []" and "pw' \<noteq> []" and "g' \<noteq> []"
    and "q \<in> set (players s)" and "game_id q = g" and "username q = u"
    and "g' \<noteq> g"
    and "\<forall>r \<in> set (players s). \<not> (game_id r = g' \<and> username r = u)"
    and "\<forall>r \<in> set (players s). pid r \<noteq> i'"
  shows "register s g u pw hash i tok = (Inl (409, ''Username already taken in this game''), s)
       \<and> register s g' u pw' hash' i' tok' =
           (Inr \<lparr>reg_player_id = i', reg_token = tok', reg_username = u, reg_credits = 0\<rparr>,
            s\<lparr>players := players s @
                 [\<lparr>pid = i', game_id = g', username = u, password_hash = hash',
                   token = Some tok', credits = 0, banned = False\<rparr>]\<rparr>)"
proof -
  from assms(6-8) have "\<exists>r \<in> set (players s). pid r = i \<or> (game_id r = g \<and> username r = u)"
    by blast
  with assms(1-3) have first: "register s g u pw hash i tok =
      (Inl (409, ''Username already taken in this game''), s)"
    by (simp add: register_def insert_player_def)
  from assms(10,11) have "\<not> (\<exists>r \<in> set (players s). pid r = i' \<or> (game_id r = g' \<and> username r = u))"
    by blast
  with assms(2,4,5) have "register s g' u pw' hash' i' tok' =
           (Inr \<lparr>reg_player_id = i', reg_token = tok', reg_username = u, reg_credits = 0\<rparr>,
            s\<lparr>players := players s @
                 [\<lparr>pid = i', game_id = g', username = u, password_hash = hash',
                   token = Some tok', credits = 0, banned = False\<rparr>]\<rparr>)"
    by (simp add: register_def insert_player_def)
  with first show ?thesis by simp
qed

theorem register_unique_per_game_witness:
  "register db0 ''g1'' ''alice'' ''pw2'' ''hpw2'' ''p8'' ''t8''
     = (Inl (409, ''Username already taken in this game''), db0)
   \<and> register db0 ''g2'' ''alice'' ''pw'' ''hpw'' ''p9'' ''t9'' =
       (Inr \<lparr>reg_player_id = ''p9'', reg_token = ''t9'', reg_username = ''alice'', reg_credits = 0\<rparr>,
        db0\<lparr>players := players db0 @
             [\<lparr>pid = ''p9'', game_id = ''g2'', username = ''alice'', password_hash = ''hpw'',
               token = Some ''t9'', credits = 0, banned = False\<rparr>]\<rparr>)"
proof -
  have h: "''g1'' \<noteq> []" "''alice'' \<noteq> []" "''pw2'' \<noteq> []" "''pw'' \<noteq> []" "''g2'' \<noteq> []"
    by simp_all
  have q: "alice \<in> set (players db0)" "game_id alice = ''g1''" "username alice = ''alice''"
    by (simp_all add: db0_def alice_def)
  have d: "''g2'' \<noteq> ''g1''" by simp
  have free: "\<forall>r \<in> set (players db0). \<not> (game_id r = ''g2'' \<and> username r = ''alice'')"
    by (simp add: db0_def alice_def bob_def)
  have fresh: "\<forall>r \<in> set (players db0). pid r \<noteq> ''p9''"
    by (simp add: db0_def alice_def bob_def)
  show ?thesis
    by (rule register_unique_per_game [OF h q d free fresh])
qed

lemma login_success:
  assumes "login cmp s g u pw new = (Inr resp, s')"
  obtains p where "p \<in> set (players s)" and "game_id p = g" and "username p = u"
    and "resp = \<lparr>login_player_id = pid p, login_token = new, login_username = username p,
                  login_credits = credits p\<rparr>"
    and "players s' = map (\<lambda>r. if pid r = pid p then r\<lparr>token := Some new\<rparr> else r) (players s)"
proof -
  from assms obtain p where f: "find (\<lambda>r. game_id r = g \<and> username r = u) (players s) = Some p"
    by (auto simp: login_def split: if_splits option.splits)
  then have "p \<in> set (players s)" "game_id p = g" "username p = u"
    by (auto simp: find_Some_iff)
  moreover from assms f have "resp = \<lparr>login_player_id = pid p, login_token = new,
      login_username = username p, login_credits = credits p\<rparr>"
    and "players s' = map (\<lambda>r. if pid r = pid p then r\<lparr>token := Some new\<rparr> else r) (players s)"
    by (auto simp: login_def split: if_splits)
  ultimately show ?thesis using that by blast
qed

text \<open>
  C6. After a successful \<^verbatim>\<open>POST /login\<close> whose new token (from \<^verbatim>\<open>uuidv4()\<close>) is held by no row
  before the call: the response carries the new token, every row of the player holds it, a
  token \<open>old\<close> that the player held before and shared with no other player differs from the new
  one and is answered 401 by \<^verbatim>\<open>requireAuth\<close>, and any token that authenticates as this player
  afterwards is the new one.
\<close>

theorem login_rotates_token:
  assumes "login cmp s g u pw new = (Inr resp, s')"
    and "\<forall>r \<in> set (players s). token r \<noteq> Some new"
  shows "login_token resp = new
       \<and> (\<exists>r \<in> set (players s'). pid r = login_player_id resp)
       \<and> (\<forall>r \<in> set (players s'). pid r = login_player_id resp \<longrightarrow> token r = Some new)
       \<and> (\<forall>old. (\<exists>r \<in> set (players s). pid r = login_player_id resp \<and> token r = Some old)
                \<and> (\<forall>r \<in> set (players s). token r = Some old \<longrightarrow> pid r = login_player_id resp)
             \<longrightarrow> old \<noteq> new \<and> (\<exists>msg. requireAuth s' old = Inl (401, msg)))
       \<and> (\<forall>t r. requireAuth s' t = Inr r \<and> pid r = login_player_id resp \<longrightarrow> t = new)"
proof -
  from assms(1) obtain p where p: "p \<in> set (players s)"
    and resp: "resp = \<lparr>login_player_id = pid p, login_token = new, login_username = username p,
                  login_credits = credits p\<rparr>"
    and s': "players s' = map (\<lambda>r. if pid r = pid p then r\<lparr>token := Some new\<rparr> else r) (players s)"
    by (rule login_success)
  have id: "login_player_id resp = pid p" and tk: "login_token resp = new"
    by (simp_all add: resp)
  have own: "\<forall>r \<in> set (players s'). pid r = pid p \<longrightarrow> token r = Some new"
    by (auto simp: s')
  have "(\<lambda>r. if pid r = pid p then r\<lparr>token := Some new\<rparr> else r) p \<in> set (players s')"
    unfolding s' set_map using p by (rule imageI)
  then have "p\<lparr>token := Some new\<rparr> \<in> set (players s')"
    by simp
  then have ex: "\<exists>r \<in> set (players s'). pid r = pid p"
    by (rule bexI [rotated]) simp
  have old: "old \<noteq> new \<and> (\<exists>msg. requireAuth s' old = Inl (401, msg))"
    if h: "\<exists>r \<in> set (players s). pid r = pid p \<and> token r = Some old"
      and u: "\<forall>r \<in> set (players s). token r = Some old \<longrightarrow> pid r = pid p" for old
  proof
    from h assms(2) show ne: "old \<noteq> new" by auto
    have "\<forall>r \<in> set (players s'). token r \<noteq> Some old"
      using u ne by (auto simp: s')
    then have "getPlayer s' old = None"
      by (simp add: getPlayer_def find_None_iff)
    then show "\<exists>msg. requireAuth s' old = Inl (401, msg)"
      by (simp add: requireAuth_def)
  qed
  have one: "t = new" if "requireAuth s' t = Inr r \<and> pid r = pid p" for t r
  proof -
    from that have "r \<in> set (players s')" "token r = Some t" "pid r = pid p"
      by (auto dest: requireAuth_Inr)
    with own show ?thesis by auto
  qed
  from tk ex own old one show ?thesis
    unfolding id by blast
qed

lemma login_db0:
  "login compare0 db0 ''g1'' ''alice'' ''1'' ''t9'' =
     (Inr \<lparr>login_player_id = ''p1'', login_token = ''t9'', login_username = ''alice'',
           login_credits = 0\<rparr>, db3)"
  by (simp add: login_def compare0_def db3_def db0_def alice_def bob_def)

theorem login_rotates_token_witness:
  "login compare0 db0 ''g1'' ''alice'' ''1'' ''t9'' =
     (Inr \<lparr>login_player_id = ''p1'', login_token = ''t9'', login_username = ''alice'',
           login_credits = 0\<rparr>, db3)
   \<and> requireAuth db0 ''t1'' = Inr alice
   \<and> requireAuth db3 ''t1'' = Inl (401, ''Invalid token'')
   \<and> requireAuth db3 ''t9'' = Inr (alice\<lparr>token := Some ''t9''\<rparr>)"
proof -
  have fresh: "\<forall>r \<in> set (players db0). token r \<noteq> Some ''t9''"
    by (simp add: db0_def alice_def bob_def)
  have held: "(\<exists>r \<in> set (players db0). pid r = ''p1'' \<and> token r = Some ''t1'')
      \<and> (\<forall>r \<in> set (players db0). token r = Some ''t1'' \<longrightarrow> pid r = ''p1'')"
    by (simp add: db0_def alice_def bob_def)
  from login_rotates_token [OF login_db0 fresh] held
  have "\<exists>msg. requireAuth db3 ''t1'' = Inl (401, msg)"
    by simp
  then have "requireAuth db3 ''t1'' = Inl (401, ''Invalid token'')"
    by (auto simp: requireAuth_def split: if_splits option.splits)
  moreover have "requireAuth db3 ''t9'' = Inr (alice\<lparr>token := Some ''t9''\<rparr>)"
    by (simp add: requireAuth_def getPlayer_def db3_def db0_def alice_def bob_def)
  ultimately show ?thesis
    using login_db0 requireAuth_db0_alice by blast
qed

section \<open>Friends\<close>

lemma listed_friend_iff:
  "listed_friend s i f = (accepted_edge s i f \<and> (\<exists>q \<in> set (players s). pid q = f))"
  by (auto simp: listed_friend_def friends_rows_def accepted_edge_def image_iff) force

text \<open>
  C4, as amended. \<^verbatim>\<open>GET /friends\<close> reads the edges that start at the caller only: \<open>f\<close> is listed
  for \<open>p\<close> if and only if an edge from \<open>p\<close> to \<open>f\<close> with status \<^verbatim>\<open>'accepted'\<close> exists and \<open>f\<close> is the id
  of a row of \<^verbatim>\<open>players\<close>. The edge from \<open>f\<close> to \<open>p\<close> is not consulted.
\<close>

theorem friends_lists_forward_accepted_edges:
  assumes "requireAuth s tok = Inr p"
  shows "friends s tok = Inr (friends_rows s (pid p))
       \<and> (\<forall>f. listed_friend s (pid p) f
              = (accepted_edge s (pid p) f \<and> (\<exists>q \<in> set (players s). pid q = f)))"
  using assms by (simp add: friends_def listed_friend_iff)

lemma requireAuth_db4_alice: "requireAuth db4 ''t1'' = Inr alice"
  by (simp add: db4_def requireAuth_db0_alice)

lemma friends_accept_db0:
  "friends_accept db0 ''t1'' ''p2'' = (Inr (), db4)"
  by (simp add: friends_accept_def requireAuth_db0_alice insert_or_ignore_friend_def)
     (simp add: db4_def db0_def alice_def)

lemma friends_db4: "friends db4 ''t1'' = Inr [(''p2'', ''bob'', 0)]"
  by (simp add: friends_def requireAuth_db4_alice friends_rows_def)
     (simp add: db4_def db0_def alice_def bob_def)

theorem friends_lists_forward_accepted_edges_witness:
  "requireAuth db4 ''t1'' = Inr alice
   \<and> friends db4 ''t1'' = Inr [(''p2'', ''bob'', 0)]
   \<and> listed_friend db4 (pid alice) ''p2''
   \<and> accepted_edge db4 (pid alice) ''p2''"
proof -
  have "accepted_edge db4 (pid alice) ''p2'' \<and> (\<exists>q \<in> set (players db4). pid q = ''p2'')"
    by (simp add: accepted_edge_def db4_def db0_def alice_def bob_def)
  with friends_lists_forward_accepted_edges [OF requireAuth_db4_alice]
  have "listed_friend db4 (pid alice) ''p2'' \<and> accepted_edge db4 (pid alice) ''p2''"
    by blast
  with requireAuth_db4_alice friends_db4 show ?thesis by blast
qed

text \<open>
  The claim C4 as it is written asks for both edges, and fails: after alice accepts bob, who
  sent no request, bob is listed for alice and there is no edge from bob to alice.
\<close>

theorem friends_one_edge_counterexample:
  "friends_accept db0 ''t1'' ''p2'' = (Inr (), db4)
   \<and> friends db4 ''t1'' = Inr [(''p2'', ''bob'', 0)]
   \<and> \<not> (listed_friend db4 ''p1'' ''p2''
          = (accepted_edge db4 ''p1'' ''p2'' \<and> accepted_edge db4 ''p2'' ''p1''))"
proof -
  have "listed_friend db4 ''p1'' ''p2''"
    by (simp add: listed_friend_iff accepted_edge_def db4_def db0_def alice_def bob_def)
  moreover have "\<not> accepted_edge db4 ''p2'' ''p1''"
    by (simp add: accepted_edge_def db4_def)
  ultimately show ?thesis
    using friends_accept_db0 friends_db4 by blast
qed

lemma friends_accept_state:
  assumes "requireAuth s tok = Inr p" and "f \<noteq> []"
  shows "friends_accept s tok f =
           (Inr (), insert_or_ignore_friend
              (s\<lparr>friend_relationships :=
                   map (\<lambda>r. if fr_player_id r = f \<and> fr_friend_id r = pid p
                            then r\<lparr>status := ''accepted''\<rparr> else r) (friend_relationships s)\<rparr>)
              (pid p) f ''accepted'')"
  using assms by (simp add: friends_accept_def)

lemma bex_edge_promote:
  "(\<exists>r \<in> set (map (\<lambda>r. if fr_player_id r = a \<and> fr_friend_id r = b
                             then r\<lparr>status := st\<rparr> else r) xs).
       fr_player_id r = i \<and> fr_friend_id r = f)
   = (\<exists>r \<in> set xs. fr_player_id r = i \<and> fr_friend_id r = f)"
  by (induction xs) auto

lemma has_edge_promote [simp]:
  "has_edge (s\<lparr>friend_relationships :=
                map (\<lambda>r. if fr_player_id r = a \<and> fr_friend_id r = b
                         then r\<lparr>status := st\<rparr> else r) (friend_relationships s)\<rparr>) i f
     = has_edge s i f"
proof -
  have sel: "friend_relationships (s\<lparr>friend_relationships := xs\<rparr>) = xs" for xs
    by simp
  show ?thesis
    unfolding has_edge_def sel by (rule bex_edge_promote)
qed

lemma map_promote_id:
  "\<forall>r \<in> set xs. \<not> (fr_player_id r = a \<and> fr_friend_id r = b) \<Longrightarrow>
   map (\<lambda>r. if fr_player_id r = a \<and> fr_friend_id r = b then r\<lparr>status := st\<rparr> else r) xs = xs"
  by (induction xs) auto

lemma promote_no_edge:
  "\<not> has_edge s a b \<Longrightarrow>
   map (\<lambda>r. if fr_player_id r = a \<and> fr_friend_id r = b then r\<lparr>status := st\<rparr> else r)
       (friend_relationships s) = friend_relationships s"
  by (rule map_promote_id) (simp add: has_edge_def)

lemma promote_other_edge:
  "(a, b) \<noteq> (i, f) \<Longrightarrow>
   filter (\<lambda>r. fr_player_id r = i \<and> fr_friend_id r = f)
     (map (\<lambda>r. if fr_player_id r = a \<and> fr_friend_id r = b then r\<lparr>status := st\<rparr> else r) xs)
   = filter (\<lambda>r. fr_player_id r = i \<and> fr_friend_id r = f) xs"
  by (induction xs) auto

text \<open>
  C10, as amended. For an authenticated player \<open>p\<close> and an id \<open>f\<close> that the request carries,
  \<^verbatim>\<open>POST /friends/accept\<close> always answers with success. When no edge from \<open>p\<close> to \<open>f\<close> exists yet,
  an edge from \<open>p\<close> to \<open>f\<close> with status \<^verbatim>\<open>'accepted'\<close> exists afterwards and \<open>f\<close>, if it is the id of a
  player, is listed for \<open>p\<close>, whether or not \<open>f\<close> ever sent a request; with no edge from \<open>f\<close> to
  \<open>p\<close> either, the new edge is the only change. An edge from \<open>p\<close> to \<open>f\<close> that exists already, with
  \<open>f\<close> another player than \<open>p\<close>, is left as it is (\<^verbatim>\<open>INSERT OR IGNORE\<close>).
\<close>

theorem friends_accept_without_request:
  assumes "requireAuth s tok = Inr p" and "f \<noteq> []"
  shows "fst (friends_accept s tok f) = Inr ()
       \<and> (\<not> has_edge s (pid p) f \<longrightarrow>
            accepted_edge (snd (friends_accept s tok f)) (pid p) f
            \<and> ((\<exists>q \<in> set (players s). pid q = f)
                 \<longrightarrow> listed_friend (snd (friends_accept s tok f)) (pid p) f))
       \<and> (\<not> has_edge s (pid p) f \<and> \<not> has_edge s f (pid p) \<longrightarrow>
            snd (friends_accept s tok f) =
              s\<lparr>friend_relationships := friend_relationships s @
                   [\<lparr>fr_player_id = pid p, fr_friend_id = f, status = ''accepted''\<rparr>]\<rparr>)
       \<and> (has_edge s (pid p) f \<and> f \<noteq> pid p \<longrightarrow>
            filter (\<lambda>r. fr_player_id r = pid p \<and> fr_friend_id r = f)
                   (friend_relationships (snd (friends_accept s tok f)))
            = filter (\<lambda>r. fr_player_id r = pid p \<and> fr_friend_id r = f) (friend_relationships s))"
proof -
  let ?upd = "\<lambda>r. if fr_player_id r = f \<and> fr_friend_id r = pid p then r\<lparr>status := ''accepted''\<rparr> else r"
  let ?s1 = "s\<lparr>friend_relationships := map ?upd (friend_relationships s)\<rparr>"
  let ?s2 = "snd (friends_accept s tok f)"
  let ?new = "\<lparr>fr_player_id = pid p, fr_friend_id = f, status = ''accepted''\<rparr>"
  have eq: "friends_accept s tok f = (Inr (), insert_or_ignore_friend ?s1 (pid p) f ''accepted'')"
    by (rule friends_accept_state [OF assms])
  have fwd: "has_edge ?s1 (pid p) f = has_edge s (pid p) f"
    by simp
  have ok: "fst (friends_accept s tok f) = Inr ()"
    by (simp add: eq)
  have ins: "?s2 = s\<lparr>friend_relationships := map ?upd (friend_relationships s) @ [?new]\<rparr>"
    if "\<not> has_edge s (pid p) f"
    using that fwd by (simp add: eq insert_or_ignore_friend_def has_edge_def)
  have acc: "accepted_edge ?s2 (pid p) f" if "\<not> has_edge s (pid p) f"
    by (simp add: ins [OF that] accepted_edge_def)
  have lst: "listed_friend ?s2 (pid p) f"
    if "\<not> has_edge s (pid p) f" and "\<exists>q \<in> set (players s). pid q = f"
  proof -
    have "players ?s2 = players s" by (simp add: ins [OF that(1)])
    with that(2) acc [OF that(1)] show ?thesis by (simp add: listed_friend_iff)
  qed
  have both: "?s2 = s\<lparr>friend_relationships := friend_relationships s @ [?new]\<rparr>"
    if "\<not> has_edge s (pid p) f" and "\<not> has_edge s f (pid p)"
    by (simp add: ins [OF that(1)] promote_no_edge [OF that(2)])
  have keep: "filter (\<lambda>r. fr_player_id r = pid p \<and> fr_friend_id r = f) (friend_relationships ?s2)
            = filter (\<lambda>r. fr_player_id r = pid p \<and> fr_friend_id r = f) (friend_relationships s)"
    if "has_edge s (pid p) f" and "f \<noteq> pid p"
  proof -
    from that(1) fwd have "?s2 = ?s1"
      by (simp add: eq insert_or_ignore_friend_def has_edge_def)
    moreover from that(2) have "(f, pid p) \<noteq> (pid p, f)" by simp
    ultimately show ?thesis by (simp add: promote_other_edge)
  qed
  from ok acc lst both keep show ?thesis by blast
qed

lemma requireAuth_db5_alice: "requireAuth db5 ''t1'' = Inr alice"
  by (simp add: db5_def requireAuth_db0_alice)

lemma friends_request_db0: "friends_request db0 ''t1'' ''bob'' = (Inr (), db5)"
  by (simp add: friends_request_def requireAuth_db0_alice)
     (simp add: db5_def db0_def alice_def bob_def insert_or_ignore_friend_def)

lemma friends_accept_db5: "friends_accept db5 ''t1'' ''p2'' = (Inr (), db5)"
  by (simp add: friends_accept_def requireAuth_db5_alice insert_or_ignore_friend_def)
     (simp add: db5_def db0_def alice_def)

lemma friends_db5: "friends db5 ''t1'' = Inr []"
  by (simp add: friends_def requireAuth_db5_alice friends_rows_def)
     (simp add: db5_def db0_def alice_def bob_def)

theorem friends_accept_without_request_witness:
  "requireAuth db0 ''t1'' = Inr alice
   \<and> friends_accept db0 ''t1'' ''p2'' = (Inr (), db4)
   \<and> accepted_edge (snd (friends_accept db0 ''t1'' ''p2'')) (pid alice) ''p2''
   \<and> listed_friend (snd (friends_accept db0 ''t1'' ''p2'')) (pid alice) ''p2''"
proof -
  have n: "''p2'' \<noteq> []" by simp
  have h: "\<not> has_edge db0 (pid alice) ''p2''" "\<exists>q \<in> set (players db0). pid q = ''p2''"
    by (simp_all add: has_edge_def db0_def bob_def)
  from friends_accept_without_request [OF requireAuth_db0_alice n] h
  have "accepted_edge (snd (friends_accept db0 ''t1'' ''p2'')) (pid alice) ''p2''
      \<and> listed_friend (snd (friends_accept db0 ''t1'' ''p2'')) (pid alice) ''p2''"
    by blast
  with requireAuth_db0_alice friends_accept_db0 show ?thesis by blast
qed

text \<open>
  The claim C10 as it is written has the accepted edge inserted for every \<open>f\<close>, and fails when
  \<open>p\<close> has a pending request to \<open>f\<close>: alice asks bob, then accepts bob. The call succeeds, bob
  sent nothing, and the edge from alice to bob stays pending, so bob is not listed for alice.
\<close>

theorem friends_accept_own_request_counterexample:
  "friends_request db0 ''t1'' ''bob'' = (Inr (), db5)
   \<and> requireAuth db5 ''t1'' = Inr alice
   \<and> \<not> has_edge db5 ''p2'' ''p1''
   \<and> friends_accept db5 ''t1'' ''p2'' = (Inr (), db5)
   \<and> \<not> accepted_edge (snd (friends_accept db5 ''t1'' ''p2'')) ''p1'' ''p2''
   \<and> friends (snd (friends_accept db5 ''t1'' ''p2'')) ''t1'' = Inr []"
proof -
  have "\<not> has_edge db5 ''p2'' ''p1''"
    by (simp add: has_edge_def db5_def)
  moreover have "\<not> accepted_edge db5 ''p1'' ''p2''"
    by (simp add: accepted_edge_def db5_def)
  ultimately show ?thesis
    using friends_request_db0 requireAuth_db5_alice friends_accept_db5 friends_db5 by simp
qed

end
